theory Spec2Isabelle
  imports Main
begin

section \<open>Data model\<close>

text \<open>
  The chat core of the repository: the message schema (models/messageModel), the
  persistence service (services/chatService, class ChatService), the cache and pub/sub
  helpers (utils/redisClient) and the socket gateway (class ChatSocket).

  Conventions of the embedding.
  \<^item> JavaScript strings are \<open>string\<close>; a \<open>char\<close> is read as one UTF-16 code unit of the
    Latin-1 range, so \<open>length\<close> is the \<open>.length\<close> of the source on such strings.
  \<^item> User, journey and room identifiers are strings, and so is every reference a caller
    hands in (sender, journey, parent message): the schema's cast to ObjectId, run when a
    document is saved, is part of \<open>validate\<close>. The identifier the store gives a new message,
    and the \<open>messageId\<close> a caller names an existing message by, are taken as cast already
    and are a \<open>nat\<close>.
  \<^item> \<open>new Date()\<close> and \<open>Date.now\<close> are a clock value \<open>now\<close> handed to each operation.
  \<^item> Logging and duration measurement have no effect on the state and are left out, as is
    \<open>populate\<close>, which replaces a reference by the referenced document's public fields.
  \<^item> A thrown exception is the \<open>Inl\<close> of a sum; asynchronous calls run to completion.
\<close>

type_synonym user_id = string
type_synonym room_id = string
type_synonym message_id = nat
type_synonym time = nat

datatype chat_type = group_planning | location_chat | qa_chat | direct

record attachment =
  att_type :: string
  att_url :: string
  att_filename :: string
  att_size :: nat

record read_receipt =
  read_user :: user_id
  readAt :: time

record reaction =
  react_user :: user_id
  emoji :: string
  react_createdAt :: time

text \<open>The coordinates of a location room, as the two texts handed to \<open>parseFloat\<close>
  (\<open>None\<close> where \<open>split\<close> produced no such element).\<close>

record location_data =
  latitude_src :: "string option"
  longitude_src :: "string option"

record message =
  msg_id :: message_id
  sender :: user_id
  content :: string
  messageType :: string
  chatRoom :: room_id
  chatType :: chat_type
  journeyId :: "string option"
  location :: "location_data option"
  parentMessage :: "string option"
  attachments :: "attachment list"
  status :: string
  readBy :: "read_receipt list"
  reactions :: "reaction list"
  editedAt :: "time option"
  originalContent :: "string option"
  isDeleted :: bool
  deletedAt :: "time option"
  createdAt :: time

text \<open>The object handed to \<open>new Message(...)\<close> by the gateway.\<close>

record message_data =
  md_sender :: user_id
  md_content :: string
  md_messageType :: string
  md_chatRoom :: room_id
  md_chatType :: chat_type
  md_attachments :: "attachment list"
  md_parentMessage :: "string option"
  md_journeyId :: "string option"
  md_location :: "location_data option"

datatype error = Error string | ValidationError | StorageError | TypeError

section \<open>JavaScript helpers\<close>

definition startsWith :: "string \<Rightarrow> string \<Rightarrow> bool" where
  "startsWith s p = (take (length p) s = p)"

text \<open>\<open>s.replace(pat, rep)\<close> with a string pattern: the first occurrence only.\<close>

fun js_replace :: "string \<Rightarrow> string \<Rightarrow> string \<Rightarrow> string" where
  "js_replace [] pat rep = (if pat = [] then rep else [])"
| "js_replace (c # cs) pat rep =
     (if startsWith (c # cs) pat then rep @ drop (length pat) (c # cs)
      else c # js_replace cs pat rep)"

fun js_split :: "string \<Rightarrow> char \<Rightarrow> string list" where
  "js_split [] d = [] # []"
| "js_split (c # cs) d =
     (if c = d then [] # js_split cs d
      else (case js_split cs d of [] \<Rightarrow> [c] # [] | w # ws \<Rightarrow> (c # w) # ws))"

definition nth_opt :: "'a list \<Rightarrow> nat \<Rightarrow> 'a option" where
  "nth_opt xs i = (if i < length xs then Some (xs ! i) else None)"

text \<open>White space removed by \<open>trim\<close>, within the Latin-1 range: U+0009 to U+000D,
  U+0020 and U+00A0.\<close>

definition is_ws :: "char \<Rightarrow> bool" where
  "is_ws c = (of_char c \<in> {9, 10, 11, 12, 13, 32, 160 :: nat})"

definition trim :: "string \<Rightarrow> string" where
  "trim s = rev (dropWhile is_ws (rev (dropWhile is_ws s)))"

text \<open>Truthiness of an optional string: \<open>undefined\<close> and \<open>''\<close> are falsy.\<close>

fun truthy :: "string option \<Rightarrow> bool" where
  "truthy None = False"
| "truthy (Some s) = (s \<noteq> [])"

text \<open>Decimal rendering of an integer, as a template literal renders a number.\<close>

definition digit_char :: "nat \<Rightarrow> char" where
  "digit_char d = ''0123456789'' ! d"

function show_nat :: "nat \<Rightarrow> string" where
  "show_nat n = (if n < 10 then [digit_char n] else show_nat (n div 10) @ [digit_char (n mod 10)])"
  by pat_completeness auto
termination
  by (relation "measure (\<lambda>n. n)") auto

declare show_nat.simps [simp del]

definition show_int :: "int \<Rightarrow> string" where
  "show_int i = (if i < 0 then CHR ''-'' # show_nat (nat (- i)) else show_nat (nat i))"

section \<open>Message schema and its methods (models/messageModel)\<close>

text \<open>The text form of an ObjectId, on which the cast of a path of type ObjectId
  succeeds: 24 hexadecimal digits. (Drivers before bson 5 also take any string of 12
  characters; that form is left out, so that what passes here passes under every
  driver.)\<close>

definition is_hex :: "char \<Rightarrow> bool" where
  "is_hex c = (c \<in> set ''0123456789abcdefABCDEF'')"

definition is_ObjectId :: "string \<Rightarrow> bool" where
  "is_ObjectId s = (length s = 24 \<and> list_all is_hex s)"

text \<open>Whether \<open>parseFloat\<close> of a text is a number other than NaN, which is what the cast
  of a path of type Number asks of it: after leading white space and an optional sign the
  text goes on with \<open>Infinity\<close>, with a digit, or with a point and a digit. A missing
  array element (\<open>undefined\<close>) gives NaN.\<close>

definition is_digit :: "char \<Rightarrow> bool" where
  "is_digit c = (c \<in> set ''0123456789'')"

definition parseFloat_is_number :: "string option \<Rightarrow> bool" where
  "parseFloat_is_number a =
     (case a of
        None \<Rightarrow> False
      | Some s \<Rightarrow>
          (let t = dropWhile is_ws s;
               u = (case t of [] \<Rightarrow> []
                    | c # r \<Rightarrow> if c = CHR ''+'' \<or> c = CHR ''-'' then r else t)
           in startsWith u ''Infinity'' \<or>
              (case u of [] \<Rightarrow> False
               | c # r \<Rightarrow> is_digit c \<or>
                   (c = CHR ''.'' \<and> (case r of [] \<Rightarrow> False | d # _ \<Rightarrow> is_digit d)))))"

text \<open>What \<open>save\<close> checks of a document: the casts of the schema (sender, journey and
  parent message to ObjectId, the two coordinates of a location to Number) and its
  validators (required sender, content and room, the content's maximal length, and the two
  string enumerations). The \<open>chatType\<close> enumeration is the datatype itself.\<close>

definition messageTypes :: "string list" where
  "messageTypes = [''text'', ''image'', ''file'', ''location'', ''system'']"

definition attachmentTypes :: "string list" where
  "attachmentTypes = [''image'', ''document'', ''audio'', ''video'']"

definition validate :: "message \<Rightarrow> bool" where
  "validate m =
     (is_ObjectId (sender m) \<and> content m \<noteq> [] \<and> length (content m) \<le> 1000
      \<and> messageType m \<in> set messageTypes \<and> chatRoom m \<noteq> []
      \<and> (\<forall>a \<in> set (attachments m). att_type a \<in> set attachmentTypes)
      \<and> (case journeyId m of None \<Rightarrow> True | Some j \<Rightarrow> is_ObjectId j)
      \<and> (case parentMessage m of None \<Rightarrow> True | Some p \<Rightarrow> is_ObjectId p)
      \<and> (case location m of
           None \<Rightarrow> True
         | Some l \<Rightarrow> parseFloat_is_number (latitude_src l)
                    \<and> parseFloat_is_number (longitude_src l)))"

definition new_Message :: "message_data \<Rightarrow> message_id \<Rightarrow> time \<Rightarrow> message" where
  "new_Message d i now =
     \<lparr> msg_id = i, sender = md_sender d, content = md_content d,
       messageType = md_messageType d, chatRoom = md_chatRoom d, chatType = md_chatType d,
       journeyId = md_journeyId d, location = md_location d,
       parentMessage = md_parentMessage d, attachments = md_attachments d,
       status = ''sent'', readBy = [], reactions = [],
       editedAt = None, originalContent = None, isDeleted = False, deletedAt = None,
       createdAt = now \<rparr>"

text \<open>\<open>existingReaction.emoji = emoji\<close> on the element returned by \<open>find\<close>: the first
  entry of the user.\<close>

fun set_first_emoji :: "user_id \<Rightarrow> string \<Rightarrow> reaction list \<Rightarrow> reaction list" where
  "set_first_emoji u e [] = []"
| "set_first_emoji u e (r # rs) =
     (if react_user r = u then r\<lparr>emoji := e\<rparr> # rs else r # set_first_emoji u e rs)"

text \<open>The three methods change the document in memory and end with \<open>this.save()\<close>;
  here they return the changed document, and the caller stores it.\<close>

definition Message_markAsRead :: "user_id \<Rightarrow> time \<Rightarrow> message \<Rightarrow> message" where
  "Message_markAsRead u now m =
     (case find (\<lambda>r. read_user r = u) (readBy m) of
        None \<Rightarrow> m\<lparr>readBy := readBy m @ [\<lparr>read_user = u, readAt = now\<rparr>]\<rparr>
      | Some _ \<Rightarrow> m)"

definition Message_addReaction :: "user_id \<Rightarrow> string \<Rightarrow> time \<Rightarrow> message \<Rightarrow> message" where
  "Message_addReaction u e now m =
     (case find (\<lambda>r. react_user r = u) (reactions m) of
        Some _ \<Rightarrow> m\<lparr>reactions := set_first_emoji u e (reactions m)\<rparr>
      | None \<Rightarrow> m\<lparr>reactions := reactions m @ [\<lparr>react_user = u, emoji = e, react_createdAt = now\<rparr>]\<rparr>)"

definition Message_removeReaction :: "user_id \<Rightarrow> message \<Rightarrow> message" where
  "Message_removeReaction u m = m\<lparr>reactions := filter (\<lambda>r. react_user r \<noteq> u) (reactions m)\<rparr>"

text \<open>A sequence of reaction operations on one document.\<close>

datatype reaction_op = AddReaction user_id string time | RemoveReaction user_id

fun apply_reaction_op :: "reaction_op \<Rightarrow> message \<Rightarrow> message" where
  "apply_reaction_op (AddReaction u e now) m = Message_addReaction u e now m"
| "apply_reaction_op (RemoveReaction u) m = Message_removeReaction u m"

definition apply_reaction_ops :: "reaction_op list \<Rightarrow> message \<Rightarrow> message" where
  "apply_reaction_ops ops m = foldl (\<lambda>d p. apply_reaction_op p d) m ops"

section \<open>Cache and pub/sub helpers (utils/redisClient)\<close>

text \<open>A JavaScript number that \<open>Math.ceil(total / limit)\<close> can produce.\<close>

datatype jsnum = Num int | Infinity | NaN

record pagination =
  currentPage :: int
  totalPages :: jsnum
  totalMessages :: nat
  hasNext :: bool
  hasPrev :: bool

record history =
  hist_messages :: "message list"
  hist_pagination :: pagination

datatype read_ids = AllIds | IdList "message_id list"

text \<open>A published object: \<open>type\<close> and the properties the publishers set; a property that
  an object does not have is \<open>None\<close> (reading it gives \<open>undefined\<close>).\<close>

record pub_event =
  ev_type :: string
  ev_message :: "message option"
  ev_messageId :: "message_id option"
  ev_userId :: "user_id option"
  ev_emoji :: "string option"
  ev_newContent :: "string option"
  ev_editedAt :: "time option"
  ev_messageIds :: "read_ids option"

definition event_of_type :: "string \<Rightarrow> pub_event" where
  "event_of_type t =
     \<lparr> ev_type = t, ev_message = None, ev_messageId = None, ev_userId = None,
       ev_emoji = None, ev_newContent = None, ev_editedAt = None, ev_messageIds = None \<rparr>"

text \<open>The Redis server as the helpers use it: keys with their value and expiry in
  seconds (\<open>setEx\<close>), and the messages published so far, each with its channel. The passing
  of time, and with it the expiry of a key, is not modelled.\<close>

record redis =
  cache :: "string \<rightharpoonup> history \<times> nat"
  published :: "(string \<times> pub_event) list"

text \<open>The state the persistence service works on: the message collection in insertion
  order, the next fresh identifier, whether the database answers, the Redis client
  (\<open>None\<close> when \<open>createRedisClient\<close> gave none), and which locations the store's
  \<open>2dsphere\<close> index on \<open>location.coordinates\<close> takes. The index works on the parsed
  coordinates, which are floating-point numbers and are not computed here, so what it
  takes is a part of the state; it is constantly true where the index is not built. A
  Redis command that fails on a present client is caught by the helpers like an absent
  client and is not modelled apart.\<close>

record chat_state =
  messages :: "message list"
  nextId :: nat
  dbUp :: bool
  client :: "redis option"
  geoIndex :: "location_data \<Rightarrow> bool"

definition setCache :: "string \<Rightarrow> history \<Rightarrow> nat \<Rightarrow> chat_state \<Rightarrow> bool \<times> chat_state" where
  "setCache key v expireInSeconds s =
     (case client s of
        None \<Rightarrow> (False, s)
      | Some r \<Rightarrow> (True, s\<lparr>client := Some (r\<lparr>cache := (cache r)(key \<mapsto> (v, expireInSeconds))\<rparr>)\<rparr>))"

definition getCache :: "string \<Rightarrow> chat_state \<Rightarrow> history option" where
  "getCache key s =
     (case client s of
        None \<Rightarrow> None
      | Some r \<Rightarrow> (case cache r key of None \<Rightarrow> None | Some (v, _) \<Rightarrow> Some v))"

text \<open>\<open>client.del(key)\<close> removes the key with exactly this name.\<close>

definition deleteCache :: "string \<Rightarrow> chat_state \<Rightarrow> bool \<times> chat_state" where
  "deleteCache key s =
     (case client s of
        None \<Rightarrow> (False, s)
      | Some r \<Rightarrow> (True, s\<lparr>client := Some (r\<lparr>cache := (cache r)(key := None)\<rparr>)\<rparr>))"

definition publishMessage :: "string \<Rightarrow> pub_event \<Rightarrow> chat_state \<Rightarrow> bool \<times> chat_state" where
  "publishMessage channel ev s =
     (case client s of
        None \<Rightarrow> (False, s)
      | Some r \<Rightarrow> (True, s\<lparr>client := Some (r\<lparr>published := published r @ [(channel, ev)]\<rparr>)\<rparr>))"

text \<open>What has been published so far (nothing without a client).\<close>

definition published_of :: "chat_state \<Rightarrow> (string \<times> pub_event) list" where
  "published_of s = (case client s of None \<Rightarrow> [] | Some r \<Rightarrow> published r)"

section \<open>Message store operations used by the service\<close>

text \<open>\<open>Message.findById\<close>, \<open>document.save()\<close> of a new and of a loaded document,
  \<open>find(...).sort({createdAt: -1}).skip(skip).limit(limit)\<close>, \<open>countDocuments\<close> and
  \<open>updateMany\<close>. Validation runs before the write, and the write of a new document with a
  location asks the \<open>2dsphere\<close> index. The store rejects a negative skip,
  reads limit 0 as no limit and a negative limit as its absolute value. The order of
  documents with equal \<open>createdAt\<close> is the store's choice; here it is the one of
  \<open>sort_key\<close>, reversed.\<close>

definition findById :: "message_id \<Rightarrow> chat_state \<Rightarrow> error + message option" where
  "findById i s = (if dbUp s then Inr (find (\<lambda>m. msg_id m = i) (messages s)) else Inl StorageError)"

definition insert_doc :: "message \<Rightarrow> chat_state \<Rightarrow> error + chat_state" where
  "insert_doc m s =
     (if \<not> validate m then Inl ValidationError
      else if \<not> dbUp s then Inl StorageError
      else if (case location m of None \<Rightarrow> False | Some l \<Rightarrow> \<not> geoIndex s l)
      then Inl StorageError
      else Inr (s\<lparr>messages := messages s @ [m], nextId := Suc (nextId s)\<rparr>))"

definition save_doc :: "message \<Rightarrow> chat_state \<Rightarrow> error + chat_state" where
  "save_doc m s =
     (if \<not> validate m then Inl ValidationError
      else if \<not> dbUp s then Inl StorageError
      else Inr (s\<lparr>messages := map (\<lambda>x. if msg_id x = msg_id m then m else x) (messages s)\<rparr>))"

text \<open>The query \<open>{chatRoom, isDeleted: false}\<close>.\<close>

definition history_query :: "room_id \<Rightarrow> message \<Rightarrow> bool" where
  "history_query room m = (chatRoom m = room \<and> \<not> isDeleted m)"

definition find_page :: "room_id \<Rightarrow> int \<Rightarrow> int \<Rightarrow> chat_state \<Rightarrow> error + message list" where
  "find_page room skip limit s =
     (if \<not> dbUp s \<or> skip < 0 then Inl StorageError
      else let newest_first = rev (sort_key createdAt (filter (history_query room) (messages s)));
               skipped = drop (nat skip) newest_first
           in Inr (if limit = 0 then skipped else take (nat \<bar>limit\<bar>) skipped))"

definition countDocuments :: "room_id \<Rightarrow> chat_state \<Rightarrow> error + nat" where
  "countDocuments room s =
     (if dbUp s then Inr (length (filter (history_query room) (messages s))) else Inl StorageError)"

text \<open>The query of \<open>markMessagesAsRead\<close>:
  \<open>{chatRoom, 'readBy.user': {$ne: userId}}\<close>, with \<open>_id: {$in: messageIds}\<close> when the
  list is not empty.\<close>

definition read_query :: "room_id \<Rightarrow> user_id \<Rightarrow> message_id list \<Rightarrow> message \<Rightarrow> bool" where
  "read_query room u ids m =
     (chatRoom m = room \<and> u \<notin> set (map read_user (readBy m))
      \<and> (ids = [] \<or> msg_id m \<in> set ids))"

text \<open>The update \<open>{$push: {readBy: {user: userId}}}\<close> on one document of the collection:
  applied where the query matches, with the schema's default \<open>readAt\<close>.\<close>

definition mark_one :: "room_id \<Rightarrow> user_id \<Rightarrow> message_id list \<Rightarrow> time \<Rightarrow> message \<Rightarrow> message" where
  "mark_one room u ids now m =
     (if read_query room u ids m
      then m\<lparr>readBy := readBy m @ [\<lparr>read_user = u, readAt = now\<rparr>]\<rparr> else m)"

definition updateMany_push_read ::
  "room_id \<Rightarrow> user_id \<Rightarrow> message_id list \<Rightarrow> time \<Rightarrow> chat_state \<Rightarrow> error + nat \<times> chat_state" where
  "updateMany_push_read room u ids now s =
     (if \<not> dbUp s then Inl StorageError
      else Inr (length (filter (read_query room u ids) (messages s)),
                s\<lparr>messages := map (mark_one room u ids now) (messages s)\<rparr>))"

section \<open>Persistence service (class ChatService)\<close>

text \<open>The two template literals the mutations use: the key handed to \<open>deleteCache\<close> and
  the channel handed to \<open>publishMessage\<close>.\<close>

definition history_cache_pattern :: "room_id \<Rightarrow> string" where
  "history_cache_pattern room = ''chat_history:'' @ room @ ''*''"

definition chat_channel :: "room_id \<Rightarrow> string" where
  "chat_channel room = ''chat:'' @ room"

definition saveMessage :: "message_data \<Rightarrow> time \<Rightarrow> chat_state \<Rightarrow> (error + message) \<times> chat_state" where
  "saveMessage messageData now s =
     (let message = new_Message messageData (nextId s) now in
      case insert_doc message s of
        Inl e \<Rightarrow> (Inl e, s)
      | Inr s1 \<Rightarrow>
          (Inr message,
           snd (publishMessage (chat_channel (md_chatRoom messageData))
                  ((event_of_type ''new_message'')\<lparr>ev_message := Some message\<rparr>) s1)))"

definition cacheKey :: "room_id \<Rightarrow> int \<Rightarrow> int \<Rightarrow> string" where
  "cacheKey room page limit =
     ''chat_history:'' @ room @ '':'' @ show_int page @ '':'' @ show_int limit"

definition ceil_div :: "nat \<Rightarrow> int \<Rightarrow> jsnum" where
  "ceil_div n limit =
     (if limit = 0 then (if n = 0 then NaN else Infinity)
      else Num (- ((- int n) div limit)))"

fun js_less :: "int \<Rightarrow> jsnum \<Rightarrow> bool" where
  "js_less p (Num k) = (p < k)"
| "js_less p Infinity = True"
| "js_less p NaN = False"

definition getChatHistory :: "room_id \<Rightarrow> int \<Rightarrow> int \<Rightarrow> chat_state \<Rightarrow> (error + history) \<times> chat_state" where
  "getChatHistory room page limit s =
     (case getCache (cacheKey room page limit) s of
        Some cachedHistory \<Rightarrow> (Inr cachedHistory, s)
      | None \<Rightarrow>
          (case find_page room ((page - 1) * limit) limit s of
             Inl e \<Rightarrow> (Inl e, s)
           | Inr msgs \<Rightarrow>
               (case countDocuments room s of
                  Inl e \<Rightarrow> (Inl e, s)
                | Inr count \<Rightarrow>
                    (let result =
                       \<lparr> hist_messages = rev msgs,
                         hist_pagination =
                           \<lparr> currentPage = page, totalPages = ceil_div count limit,
                             totalMessages = count,
                             hasNext = js_less page (ceil_div count limit),
                             hasPrev = (page > 1) \<rparr> \<rparr>
                     in (Inr result, snd (setCache (cacheKey room page limit) result 300 s))))))"

text \<open>The argument \<open>messageIds\<close> of \<open>markMessagesAsRead\<close>: an array, or \<open>null\<close>, on
  which \<open>messageIds.length\<close> throws.\<close>

datatype ids_arg = IdsNull | Ids "message_id list"

definition markMessagesAsRead ::
  "room_id \<Rightarrow> user_id \<Rightarrow> ids_arg \<Rightarrow> time \<Rightarrow> chat_state \<Rightarrow> (error + nat) \<times> chat_state" where
  "markMessagesAsRead room u messageIds now s =
     (case messageIds of
        IdsNull \<Rightarrow> (Inl TypeError, s)
      | Ids ids \<Rightarrow>
          (case updateMany_push_read room u ids now s of
             Inl e \<Rightarrow> (Inl e, s)
           | Inr (modifiedCount, s1) \<Rightarrow>
               (let s2 = snd (deleteCache (history_cache_pattern room) s1);
                    s3 = snd (publishMessage (chat_channel room)
                           ((event_of_type ''messages_read'')
                              \<lparr>ev_userId := Some u,
                               ev_messageIds := Some (if ids \<noteq> [] then IdList ids else AllIds)\<rparr>) s2)
                in (Inr modifiedCount, s3))))"

definition addReaction ::
  "message_id \<Rightarrow> user_id \<Rightarrow> string \<Rightarrow> time \<Rightarrow> chat_state \<Rightarrow> (error + string) \<times> chat_state" where
  "addReaction messageId u e now s =
     (case findById messageId s of
        Inl err \<Rightarrow> (Inl err, s)
      | Inr None \<Rightarrow> (Inl (Error ''Message not found''), s)
      | Inr (Some message) \<Rightarrow>
          (case save_doc (Message_addReaction u e now message) s of
             Inl err \<Rightarrow> (Inl err, s)
           | Inr s1 \<Rightarrow>
               (let s2 = snd (deleteCache (history_cache_pattern (chatRoom message)) s1);
                    s3 = snd (publishMessage (chat_channel (chatRoom message))
                           ((event_of_type ''reaction_added'')
                              \<lparr>ev_messageId := Some messageId, ev_userId := Some u,
                               ev_emoji := Some e\<rparr>) s2)
                in (Inr ''Reaction added successfully'', s3))))"

definition removeReaction ::
  "message_id \<Rightarrow> user_id \<Rightarrow> chat_state \<Rightarrow> (error + string) \<times> chat_state" where
  "removeReaction messageId u s =
     (case findById messageId s of
        Inl err \<Rightarrow> (Inl err, s)
      | Inr None \<Rightarrow> (Inl (Error ''Message not found''), s)
      | Inr (Some message) \<Rightarrow>
          (case save_doc (Message_removeReaction u message) s of
             Inl err \<Rightarrow> (Inl err, s)
           | Inr s1 \<Rightarrow>
               (let s2 = snd (deleteCache (history_cache_pattern (chatRoom message)) s1);
                    s3 = snd (publishMessage (chat_channel (chatRoom message))
                           ((event_of_type ''reaction_removed'')
                              \<lparr>ev_messageId := Some messageId, ev_userId := Some u\<rparr>) s2)
                in (Inr ''Reaction removed successfully'', s3))))"

text \<open>The document as \<open>editMessage\<close> changes it before saving.\<close>

definition edited :: "string \<Rightarrow> time \<Rightarrow> message \<Rightarrow> message" where
  "edited newContent now message =
     (let m1 = (if \<not> truthy (originalContent message)
                then message\<lparr>originalContent := Some (content message)\<rparr> else message)
      in m1\<lparr>content := newContent, editedAt := Some now\<rparr>)"

definition editMessage ::
  "message_id \<Rightarrow> user_id \<Rightarrow> string \<Rightarrow> time \<Rightarrow> chat_state \<Rightarrow> (error + string) \<times> chat_state" where
  "editMessage messageId u newContent now s =
     (case findById messageId s of
        Inl err \<Rightarrow> (Inl err, s)
      | Inr None \<Rightarrow> (Inl (Error ''Message not found''), s)
      | Inr (Some message) \<Rightarrow>
          if sender message \<noteq> u then (Inl (Error ''Can only edit your own messages''), s)
          else
            (case save_doc (edited newContent now message) s of
               Inl err \<Rightarrow> (Inl err, s)
             | Inr s1 \<Rightarrow>
                 (let s2 = snd (deleteCache (history_cache_pattern (chatRoom message)) s1);
                      s3 = snd (publishMessage (chat_channel (chatRoom message))
                             ((event_of_type ''message_edited'')
                                \<lparr>ev_messageId := Some messageId, ev_newContent := Some newContent,
                                 ev_editedAt := Some now\<rparr>) s2)
                  in (Inr ''Message edited successfully'', s3))))"

definition deleted :: "time \<Rightarrow> message \<Rightarrow> message" where
  "deleted now message =
     message\<lparr>isDeleted := True, deletedAt := Some now,
             content := ''This message has been deleted''\<rparr>"

definition deleteMessage ::
  "message_id \<Rightarrow> user_id \<Rightarrow> time \<Rightarrow> chat_state \<Rightarrow> (error + string) \<times> chat_state" where
  "deleteMessage messageId u now s =
     (case findById messageId s of
        Inl err \<Rightarrow> (Inl err, s)
      | Inr None \<Rightarrow> (Inl (Error ''Message not found''), s)
      | Inr (Some message) \<Rightarrow>
          if sender message \<noteq> u then (Inl (Error ''Can only delete your own messages''), s)
          else
            (case save_doc (deleted now message) s of
               Inl err \<Rightarrow> (Inl err, s)
             | Inr s1 \<Rightarrow>
                 (let s2 = snd (deleteCache (history_cache_pattern (chatRoom message)) s1);
                      s3 = snd (publishMessage (chat_channel (chatRoom message))
                             ((event_of_type ''message_deleted'')\<lparr>ev_messageId := Some messageId\<rparr>) s2)
                  in (Inr ''Message deleted successfully'', s3))))"

section \<open>Socket gateway (class ChatSocket)\<close>

record socket =
  socket_id :: string
  socket_userId :: user_id

text \<open>Where an event goes: \<open>socket.emit\<close> (the socket itself),
  \<open>io.to(room).emit\<close> (every socket in the room) and \<open>socket.to(room).emit\<close>
  (every socket in the room but the emitting one, given by its id).\<close>

datatype target = ToSocket string | ToRoom room_id | ToRoomExcept room_id string

datatype payload =
    ErrorP string
  | ChatHistoryP history
  | UserJoinedP user_id time
  | UserLeftP user_id time
  | NewMessageP message
  | UserTypingP user_id bool
  | ReactionUpdatedP "message_id option" "user_id option" "string option" string
  | MessageUpdatedP "message_id option" "string option" "time option"
  | MessageDeletedP "message_id option"
  | MessagesReadP "user_id option" "read_ids option"

type_synonym emission = "target \<times> string \<times> payload"

text \<open>One server process: the persistence service's state, the presence map
  \<open>connectedUsers\<close> (user id to socket id), the transport's rooms (room to the ids of the
  sockets in it) and the transport's live sockets.\<close>

record server =
  svc :: chat_state
  connectedUsers :: "user_id \<rightharpoonup> string"
  rooms :: "room_id \<Rightarrow> string set"
  live :: "socket set"

definition recipients :: "server \<Rightarrow> target \<Rightarrow> string set" where
  "recipients srv t =
     (case t of
        ToSocket sid \<Rightarrow> {sid}
      | ToRoom room \<Rightarrow> rooms srv room
      | ToRoomExcept room sid \<Rightarrow> rooms srv room - {sid})"

definition socket_join :: "socket \<Rightarrow> room_id \<Rightarrow> server \<Rightarrow> server" where
  "socket_join sock room srv =
     srv\<lparr>rooms := (rooms srv)(room := insert (socket_id sock) (rooms srv room))\<rparr>"

definition socket_leave :: "socket \<Rightarrow> room_id \<Rightarrow> server \<Rightarrow> server" where
  "socket_leave sock room srv =
     srv\<lparr>rooms := (rooms srv)(room := rooms srv room - {socket_id sock})\<rparr>"

definition error_to :: "socket \<Rightarrow> string \<Rightarrow> emission" where
  "error_to sock msg = (ToSocket (socket_id sock), ''error'', ErrorP msg)"

definition validateRoomAccess :: "user_id \<Rightarrow> room_id \<Rightarrow> string \<Rightarrow> bool" where
  "validateRoomAccess userId roomId roomType =
     (if roomType = ''group_planning'' then True
      else if roomType = ''location_chat'' then True
      else if roomType = ''qa_chat'' then True
      else if roomType = ''direct'' then True
      else False)"

definition determineChatType :: "room_id \<Rightarrow> chat_type" where
  "determineChatType roomId =
     (if startsWith roomId ''journey_'' then group_planning
      else if startsWith roomId ''location_'' then location_chat
      else if startsWith roomId ''qa_'' then qa_chat
      else direct)"

definition extractJourneyId :: "room_id \<Rightarrow> string" where
  "extractJourneyId roomId = js_replace roomId ''journey_'' []"

definition extractLocationData :: "room_id \<Rightarrow> location_data" where
  "extractLocationData roomId =
     (let coords = js_split (js_replace roomId ''location_'' []) (CHR ''_'')
      in \<lparr> latitude_src = nth_opt coords 0, longitude_src = nth_opt coords 1 \<rparr>)"

definition handleConnection :: "socket \<Rightarrow> server \<Rightarrow> server" where
  "handleConnection sock srv =
     socket_join sock (''user_'' @ socket_userId sock)
       (srv\<lparr>connectedUsers := (connectedUsers srv)(socket_userId sock \<mapsto> socket_id sock),
            live := insert sock (live srv)\<rparr>)"

definition on_join_room :: "socket \<Rightarrow> room_id \<Rightarrow> string \<Rightarrow> time \<Rightarrow> server \<Rightarrow> emission list \<times> server" where
  "on_join_room sock roomId roomType now srv =
     (if \<not> validateRoomAccess (socket_userId sock) roomId roomType
      then ([error_to sock ''Access denied to this chat room''], srv)
      else
        (let srv1 = socket_join sock roomId srv in
         case getChatHistory roomId 1 20 (svc srv1) of
           (Inl e, c) \<Rightarrow> ([error_to sock ''Failed to join chat room''], srv1\<lparr>svc := c\<rparr>)
         | (Inr history, c) \<Rightarrow>
             ([(ToSocket (socket_id sock), ''chat_history'', ChatHistoryP history),
               (ToRoomExcept roomId (socket_id sock), ''user_joined'',
                  UserJoinedP (socket_userId sock) now)],
              srv1\<lparr>svc := c\<rparr>)))"

definition on_leave_room :: "socket \<Rightarrow> room_id \<Rightarrow> time \<Rightarrow> server \<Rightarrow> emission list \<times> server" where
  "on_leave_room sock roomId now srv =
     ([(ToRoomExcept roomId (socket_id sock), ''user_left'', UserLeftP (socket_userId sock) now)],
      socket_leave sock roomId srv)"

text \<open>The payload of \<open>send_message\<close>; \<open>None\<close> is a property the client left out.\<close>

record send_data =
  sd_roomId :: room_id
  sd_content :: string
  sd_messageType :: "string option"
  sd_attachments :: "attachment list option"
  sd_parentMessageId :: "string option"

text \<open>The object \<open>messageData\<close> the handler builds, with the defaults of the
  destructuring (\<open>messageType = 'text'\<close>, \<open>attachments = []\<close>) and
  \<open>parentMessageId || null\<close>, which turns the empty string into \<open>null\<close>.\<close>

definition send_messageData :: "socket \<Rightarrow> send_data \<Rightarrow> message_data" where
  "send_messageData sock d =
     \<lparr> md_sender = socket_userId sock, md_content = trim (sd_content d),
       md_messageType = (case sd_messageType d of None \<Rightarrow> ''text'' | Some t \<Rightarrow> t),
       md_chatRoom = sd_roomId d, md_chatType = determineChatType (sd_roomId d),
       md_attachments = (case sd_attachments d of None \<Rightarrow> [] | Some a \<Rightarrow> a),
       md_parentMessage =
         (case sd_parentMessageId d of None \<Rightarrow> None
          | Some p \<Rightarrow> if p = [] then None else Some p),
       md_journeyId =
         (if determineChatType (sd_roomId d) = group_planning
          then Some (extractJourneyId (sd_roomId d)) else None),
       md_location =
         (if determineChatType (sd_roomId d) = location_chat
          then Some (extractLocationData (sd_roomId d)) else None) \<rparr>"

definition on_send_message :: "socket \<Rightarrow> send_data \<Rightarrow> time \<Rightarrow> server \<Rightarrow> emission list \<times> server" where
  "on_send_message sock d now srv =
     (if sd_content d = [] \<or> length (trim (sd_content d)) = 0
      then ([error_to sock ''Message content is required''], srv)
      else if length (sd_content d) > 1000
      then ([error_to sock ''Message too long (max 1000 characters)''], srv)
      else
        (case saveMessage (send_messageData sock d) now (svc srv) of
           (Inl e, c) \<Rightarrow> ([error_to sock ''Failed to send message''], srv\<lparr>svc := c\<rparr>)
         | (Inr savedMessage, c) \<Rightarrow>
             ([(ToRoom (sd_roomId d), ''new_message'', NewMessageP savedMessage)],
              srv\<lparr>svc := c\<rparr>)))"

definition on_typing :: "socket \<Rightarrow> room_id \<Rightarrow> bool \<Rightarrow> server \<Rightarrow> emission list \<times> server" where
  "on_typing sock roomId typing srv =
     ([(ToRoomExcept roomId (socket_id sock), ''user_typing'',
          UserTypingP (socket_userId sock) typing)], srv)"

definition on_add_reaction ::
  "socket \<Rightarrow> message_id \<Rightarrow> string \<Rightarrow> time \<Rightarrow> server \<Rightarrow> emission list \<times> server" where
  "on_add_reaction sock messageId e now srv =
     (case addReaction messageId (socket_userId sock) e now (svc srv) of
        (Inl err, c) \<Rightarrow> ([error_to sock ''Failed to add reaction''], srv\<lparr>svc := c\<rparr>)
      | (Inr _, c) \<Rightarrow> ([], srv\<lparr>svc := c\<rparr>))"

definition on_remove_reaction ::
  "socket \<Rightarrow> message_id \<Rightarrow> server \<Rightarrow> emission list \<times> server" where
  "on_remove_reaction sock messageId srv =
     (case removeReaction messageId (socket_userId sock) (svc srv) of
        (Inl err, c) \<Rightarrow> ([error_to sock ''Failed to remove reaction''], srv\<lparr>svc := c\<rparr>)
      | (Inr _, c) \<Rightarrow> ([], srv\<lparr>svc := c\<rparr>))"

definition on_edit_message ::
  "socket \<Rightarrow> message_id \<Rightarrow> string \<Rightarrow> time \<Rightarrow> server \<Rightarrow> emission list \<times> server" where
  "on_edit_message sock messageId newContent now srv =
     (case editMessage messageId (socket_userId sock) newContent now (svc srv) of
        (Inl err, c) \<Rightarrow> ([error_to sock ''Failed to edit message''], srv\<lparr>svc := c\<rparr>)
      | (Inr _, c) \<Rightarrow> ([], srv\<lparr>svc := c\<rparr>))"

definition on_delete_message ::
  "socket \<Rightarrow> message_id \<Rightarrow> time \<Rightarrow> server \<Rightarrow> emission list \<times> server" where
  "on_delete_message sock messageId now srv =
     (case deleteMessage messageId (socket_userId sock) now (svc srv) of
        (Inl err, c) \<Rightarrow> ([error_to sock ''Failed to delete message''], srv\<lparr>svc := c\<rparr>)
      | (Inr _, c) \<Rightarrow> ([], srv\<lparr>svc := c\<rparr>))"

text \<open>\<open>const { roomId, messageIds = [] } = data\<close>: the default stands in for a property
  that is left out (\<open>None\<close>), not for \<open>null\<close>. The \<open>catch\<close> of this handler logs and
  emits nothing.\<close>

definition on_mark_messages_read ::
  "socket \<Rightarrow> room_id \<Rightarrow> ids_arg option \<Rightarrow> time \<Rightarrow> server \<Rightarrow> emission list \<times> server" where
  "on_mark_messages_read sock roomId messageIds now srv =
     (case markMessagesAsRead roomId (socket_userId sock)
             (case messageIds of None \<Rightarrow> Ids [] | Some a \<Rightarrow> a) now (svc srv) of
        (Inl err, c) \<Rightarrow> ([], srv\<lparr>svc := c\<rparr>)
      | (Inr _, c) \<Rightarrow> ([], srv\<lparr>svc := c\<rparr>))"

text \<open>The \<open>disconnect\<close> handler, and the disconnect of a socket as a whole: the
  transport takes the socket out of its rooms and of the live sockets, and the handler
  runs.\<close>

definition on_disconnect :: "socket \<Rightarrow> server \<Rightarrow> server" where
  "on_disconnect sock srv = srv\<lparr>connectedUsers := (connectedUsers srv)(socket_userId sock := None)\<rparr>"

definition transport_close :: "socket \<Rightarrow> server \<Rightarrow> server" where
  "transport_close sock srv =
     srv\<lparr>rooms := (\<lambda>room. rooms srv room - {socket_id sock}), live := live srv - {sock}\<rparr>"

definition disconnect :: "socket \<Rightarrow> server \<Rightarrow> server" where
  "disconnect sock srv = on_disconnect sock (transport_close sock srv)"

text \<open>The events a client can send, and their dispatch to the handlers.\<close>

datatype client_event =
    join_room room_id string
  | leave_room room_id
  | send_message send_data
  | typing_start room_id
  | typing_stop room_id
  | add_reaction message_id string
  | remove_reaction message_id
  | edit_message message_id string
  | delete_message message_id
  | mark_messages_read room_id "ids_arg option"

fun handle_event :: "socket \<Rightarrow> client_event \<Rightarrow> time \<Rightarrow> server \<Rightarrow> emission list \<times> server" where
  "handle_event sock (join_room roomId roomType) now srv = on_join_room sock roomId roomType now srv"
| "handle_event sock (leave_room roomId) now srv = on_leave_room sock roomId now srv"
| "handle_event sock (send_message d) now srv = on_send_message sock d now srv"
| "handle_event sock (typing_start roomId) now srv = on_typing sock roomId True srv"
| "handle_event sock (typing_stop roomId) now srv = on_typing sock roomId False srv"
| "handle_event sock (add_reaction messageId e) now srv = on_add_reaction sock messageId e now srv"
| "handle_event sock (remove_reaction messageId) now srv = on_remove_reaction sock messageId srv"
| "handle_event sock (edit_message messageId newContent) now srv =
     on_edit_message sock messageId newContent now srv"
| "handle_event sock (delete_message messageId) now srv = on_delete_message sock messageId now srv"
| "handle_event sock (mark_messages_read roomId messageIds) now srv =
     on_mark_messages_read sock roomId messageIds now srv"

section \<open>Cross-instance relay (ChatSocket.handleRedisMessage)\<close>

text \<open>\<open>handleRedisMessage\<close> reads the room from \<open>payload.message.chatRoom\<close>; on an
  object without the property \<open>message\<close> that read throws a TypeError.\<close>

definition handleRedisMessage :: "pub_event \<Rightarrow> error + emission list" where
  "handleRedisMessage data =
     (if ev_type data = ''new_message'' then Inr []
      else if ev_type data = ''reaction_added'' then
        (case ev_message data of
           None \<Rightarrow> Inl TypeError
         | Some m \<Rightarrow> Inr [(ToRoom (chatRoom m), ''reaction_updated'',
                           ReactionUpdatedP (ev_messageId data) (ev_userId data) (ev_emoji data) ''added'')])
      else if ev_type data = ''reaction_removed'' then
        (case ev_message data of
           None \<Rightarrow> Inl TypeError
         | Some m \<Rightarrow> Inr [(ToRoom (chatRoom m), ''reaction_updated'',
                           ReactionUpdatedP (ev_messageId data) (ev_userId data) None ''removed'')])
      else if ev_type data = ''message_edited'' then
        (case ev_message data of
           None \<Rightarrow> Inl TypeError
         | Some m \<Rightarrow> Inr [(ToRoom (chatRoom m), ''message_updated'',
                           MessageUpdatedP (ev_messageId data) (ev_newContent data) (ev_editedAt data))])
      else if ev_type data = ''message_deleted'' then
        (case ev_message data of
           None \<Rightarrow> Inl TypeError
         | Some m \<Rightarrow> Inr [(ToRoom (chatRoom m), ''message_deleted'',
                           MessageDeletedP (ev_messageId data))])
      else if ev_type data = ''messages_read'' then
        (case ev_message data of
           None \<Rightarrow> Inl TypeError
         | Some m \<Rightarrow> Inr [(ToRoom (chatRoom m), ''messages_read'',
                           MessagesReadP (ev_userId data) (ev_messageIds data))])
      else Inr [])"

text \<open>The callback \<open>subscribeToChannel\<close> installs: an exception of the handler is caught
  and logged, and nothing is emitted.\<close>

definition relay_callback :: "pub_event \<Rightarrow> emission list" where
  "relay_callback data = (case handleRedisMessage data of Inl _ \<Rightarrow> [] | Inr es \<Rightarrow> es)"

section \<open>Store invariant\<close>

text \<open>What every stored message satisfies: the schema's validators, which \<open>save\<close> runs on
  every write, and an \<open>originalContent\<close> that is not the empty string (it is only ever
  set from a stored content, which \<open>required\<close> keeps non-empty).\<close>

definition well_formed :: "message \<Rightarrow> bool" where
  "well_formed m = (validate m \<and> originalContent m \<noteq> Some [])"

definition store_ok :: "chat_state \<Rightarrow> bool" where
  "store_ok s = (\<forall>m \<in> set (messages s). well_formed m)"

section \<open>Cache invariant\<close>

text \<open>A cached page of a room holds messages of that room that were not deleted when the
  page was read, oldest first; every entry of the cache that \<open>getChatHistory\<close> can hit
  is such a page of the room it is asked for.\<close>

definition history_ok :: "room_id \<Rightarrow> history \<Rightarrow> bool" where
  "history_ok room h =
     ((\<forall>m \<in> set (hist_messages h). chatRoom m = room \<and> \<not> isDeleted m)
      \<and> sorted (map createdAt (hist_messages h)))"

definition cache_ok :: "chat_state \<Rightarrow> bool" where
  "cache_ok s =
     (\<forall>room page limit h. getCache (cacheKey room page limit) s = Some h \<longrightarrow> history_ok room h)"

section \<open>Example data\<close>

text \<open>A small concrete scenario on which the properties below are evaluated: user
  \<open>u1\<close> created journey \<open>j1\<close>, user \<open>u2\<close> asked a question about it in the room
  \<open>qa_<j1>_<u2>\<close>, and \<open>u3\<close> is a third user. The identifiers are ObjectIds in text
  form.\<close>

definition user_u1 :: user_id where
  "user_u1 = ''0000000000000000000000a1''"

definition user_u2 :: user_id where
  "user_u2 = ''0000000000000000000000a2''"

definition user_u3 :: user_id where
  "user_u3 = ''0000000000000000000000a3''"

definition journey_j1 :: string where
  "journey_j1 = ''0000000000000000000000b1''"

definition room_qa_j1_u2 :: room_id where
  "room_qa_j1_u2 = ''qa_'' @ journey_j1 @ ''_'' @ user_u2"

definition example_data :: message_data where
  "example_data =
     \<lparr> md_sender = user_u2, md_content = ''Hello'', md_messageType = ''text'',
       md_chatRoom = room_qa_j1_u2, md_chatType = qa_chat, md_attachments = [],
       md_parentMessage = None, md_journeyId = None, md_location = None \<rparr>"

definition example_message :: message where
  "example_message = new_Message example_data 0 100"

definition example_state :: chat_state where
  "example_state =
     \<lparr> messages = [example_message], nextId = 1, dbUp = True,
       client = Some \<lparr> cache = Map.empty, published = [] \<rparr>,
       geoIndex = (\<lambda>_. True) \<rparr>"

definition example_server :: server where
  "example_server =
     \<lparr> svc = example_state, connectedUsers = Map.empty, rooms = (\<lambda>_. {}), live = {} \<rparr>"

text \<open>The same room with a second message, an answer of \<open>u1\<close> that \<open>u2\<close> has read.\<close>

definition example_reply :: message where
  "example_reply =
     (new_Message (example_data\<lparr>md_sender := user_u1, md_content := ''Welcome''\<rparr>) 1 150)
       \<lparr>readBy := [\<lparr>read_user = user_u2, readAt = 160\<rparr>]\<rparr>"

definition example_state2 :: chat_state where
  "example_state2 = example_state\<lparr>messages := [example_message, example_reply], nextId := 2\<rparr>"

text \<open>The first page of the room in \<open>example_state\<close>.\<close>

definition example_page :: history where
  "example_page =
     \<lparr> hist_messages = [example_message],
       hist_pagination = \<lparr> currentPage = 1, totalPages = Num 1, totalMessages = 1,
                           hasNext = False, hasPrev = False \<rparr> \<rparr>"

text \<open>The server with the sockets of \<open>u2\<close> and \<open>u1\<close> in the room, and three
  \<open>send_message\<close> payloads: one of 1001 characters, one with a short text, one of
  blanks only.\<close>

definition example_room_server :: server where
  "example_room_server =
     \<lparr> svc = example_state, connectedUsers = [user_u2 \<mapsto> ''s2'', user_u1 \<mapsto> ''s1''],
       rooms = (\<lambda>_. {})(room_qa_j1_u2 := {''s2'', ''s1''}), live = {} \<rparr>"

definition example_long :: send_data where
  "example_long =
     \<lparr> sd_roomId = room_qa_j1_u2, sd_content = replicate 1001 (CHR ''a''),
       sd_messageType = None, sd_attachments = None, sd_parentMessageId = None \<rparr>"

definition example_short :: send_data where
  "example_short =
     \<lparr> sd_roomId = room_qa_j1_u2, sd_content = '' Thanks! '',
       sd_messageType = None, sd_attachments = None, sd_parentMessageId = None \<rparr>"

definition example_blank :: send_data where
  "example_blank = example_short\<lparr>sd_content := ''   ''\<rparr>"

text \<open>The same short text for the planning room of the journey and for a location room,
  and for two rooms whose ids give no journey ObjectId and no coordinates.\<close>

definition room_journey_j1 :: room_id where
  "room_journey_j1 = ''journey_'' @ journey_j1"

definition room_location :: room_id where
  "room_location = ''location_12.5_-45.0''"

definition example_planning :: send_data where
  "example_planning = example_short\<lparr>sd_roomId := room_journey_j1\<rparr>"

definition example_location :: send_data where
  "example_location = example_short\<lparr>sd_roomId := room_location\<rparr>"

definition example_bad_journey :: send_data where
  "example_bad_journey = example_short\<lparr>sd_roomId := ''journey_j1''\<rparr>"

definition example_bad_location :: send_data where
  "example_bad_location = example_short\<lparr>sd_roomId := ''location_abc''\<rparr>"

definition socket_u2 :: socket where
  "socket_u2 = \<lparr> socket_id = ''s2'', socket_userId = user_u2 \<rparr>"

definition socket_u2b :: socket where
  "socket_u2b = \<lparr> socket_id = ''s2b'', socket_userId = user_u2 \<rparr>"

definition socket_u3 :: socket where
  "socket_u3 = \<lparr> socket_id = ''s3'', socket_userId = user_u3 \<rparr>"

section \<open>Reactions: at most one per user\<close>

lemma set_first_emoji_users: "map react_user (set_first_emoji u e rs) = map react_user rs"
  by (induction rs) auto

lemma set_first_emoji_others:
  "filter (\<lambda>r. react_user r \<noteq> u) (set_first_emoji u e rs) = filter (\<lambda>r. react_user r \<noteq> u) rs"
  by (induction rs) auto

lemma filter_user_absent: "u \<notin> react_user ` set rs \<Longrightarrow> filter (\<lambda>r. react_user r = u) rs = []"
  by (induction rs) auto

lemma set_first_emoji_own:
  "distinct (map react_user rs) \<Longrightarrow> u \<in> react_user ` set rs \<Longrightarrow>
   map emoji (filter (\<lambda>r. react_user r = u) (set_first_emoji u e rs)) = [e]"
proof (induction rs)
  case Nil
  then show ?case by simp
next
  case (Cons r rs)
  show ?case
  proof (cases "react_user r = u")
    case True
    with Cons.prems have "u \<notin> react_user ` set rs" by auto
    with True show ?thesis by (simp add: filter_user_absent)
  next
    case False
    with Cons show ?thesis by auto
  qed
qed

lemma find_user_None: "find (\<lambda>r. react_user r = u) rs = None \<longleftrightarrow> u \<notin> react_user ` set rs"
  by (auto simp: find_None_iff)

lemma addReaction_users:
  "map react_user (reactions (Message_addReaction u e now m)) =
     (if u \<in> react_user ` set (reactions m) then map react_user (reactions m)
      else map react_user (reactions m) @ [u])"
  by (cases "find (\<lambda>r. react_user r = u) (reactions m)")
     (auto simp: Message_addReaction_def set_first_emoji_users find_user_None
           simp flip: find_user_None)

lemma addReaction_distinct:
  "distinct (map react_user (reactions m)) \<Longrightarrow>
   distinct (map react_user (reactions (Message_addReaction u e now m)))"
  by (simp add: addReaction_users)

lemma removeReaction_distinct:
  "distinct (map react_user (reactions m)) \<Longrightarrow>
   distinct (map react_user (reactions (Message_removeReaction u m)))"
  by (simp add: Message_removeReaction_def distinct_map_filter)

lemma apply_reaction_ops_distinct:
  "distinct (map react_user (reactions m)) \<Longrightarrow>
   distinct (map react_user (reactions (apply_reaction_ops ops m)))"
  unfolding apply_reaction_ops_def
proof (induction ops arbitrary: m)
  case Nil
  then show ?case by simp
next
  case (Cons p ops)
  have "distinct (map react_user (reactions (apply_reaction_op p m)))"
    using Cons.prems by (cases p) (simp_all add: addReaction_distinct removeReaction_distinct)
  then show ?case using Cons.IH by simp
qed

lemma addReaction_own:
  assumes "distinct (map react_user (reactions m))"
  shows "map emoji (filter (\<lambda>r. react_user r = u) (reactions (Message_addReaction u e now m))) = [e]"
proof (cases "u \<in> react_user ` set (reactions m)")
  case True
  then obtain a where "find (\<lambda>r. react_user r = u) (reactions m) = Some a"
    using find_user_None [of u "reactions m"] by (cases "find (\<lambda>r. react_user r = u) (reactions m)") auto
  with True assms show ?thesis
    by (simp add: Message_addReaction_def set_first_emoji_own)
next
  case False
  then have "find (\<lambda>r. react_user r = u) (reactions m) = None"
    by (simp add: find_user_None)
  with False show ?thesis
    by (simp add: Message_addReaction_def filter_user_absent)
qed

lemma removeReaction_noop:
  "u \<notin> react_user ` set (reactions m) \<Longrightarrow> Message_removeReaction u m = m"
proof -
  assume "u \<notin> react_user ` set (reactions m)"
  then have "filter (\<lambda>r. react_user r \<noteq> u) (reactions m) = reactions m"
    by (induction "reactions m") (auto simp: filter_id_conv)
  then show ?thesis by (simp add: Message_removeReaction_def)
qed

text \<open>C7. On a message with at most one reaction per user, \<open>addReaction\<close> by a user
  with one emoji and then with another leaves exactly one entry of that user, holding the
  second emoji; every sequence of \<open>addReaction\<close> and \<open>removeReaction\<close> keeps at most one
  entry per user; \<open>removeReaction\<close> leaves no entry of the user, keeps the entries of all
  others, and changes nothing when the user has no entry.\<close>

theorem C7_one_reaction_per_user:
  "distinct (map react_user (reactions m)) \<Longrightarrow>
     map emoji (filter (\<lambda>r. react_user r = u)
        (reactions (Message_addReaction u e2 t2 (Message_addReaction u e1 t1 m)))) = [e2]
   \<and> distinct (map react_user (reactions (apply_reaction_ops ops m)))
   \<and> filter (\<lambda>r. react_user r = u) (reactions (Message_removeReaction u m)) = []
   \<and> filter (\<lambda>r. react_user r \<noteq> u) (reactions (Message_removeReaction u m))
       = filter (\<lambda>r. react_user r \<noteq> u) (reactions m)
   \<and> (u \<notin> react_user ` set (reactions m) \<longrightarrow> Message_removeReaction u m = m)"
proof (intro conjI impI)
  assume d: "distinct (map react_user (reactions m))"
  show "map emoji (filter (\<lambda>r. react_user r = u)
        (reactions (Message_addReaction u e2 t2 (Message_addReaction u e1 t1 m)))) = [e2]"
    using addReaction_own [OF addReaction_distinct [OF d]] .
  show "distinct (map react_user (reactions (apply_reaction_ops ops m)))"
    using d by (rule apply_reaction_ops_distinct)
  show "filter (\<lambda>r. react_user r = u) (reactions (Message_removeReaction u m)) = []"
    by (simp add: Message_removeReaction_def)
  show "filter (\<lambda>r. react_user r \<noteq> u) (reactions (Message_removeReaction u m))
       = filter (\<lambda>r. react_user r \<noteq> u) (reactions m)"
    by (simp add: Message_removeReaction_def)
next
  assume "u \<notin> react_user ` set (reactions m)"
  then show "Message_removeReaction u m = m" by (rule removeReaction_noop)
qed

theorem C7_witness:
  "distinct (map react_user (reactions example_message))
   \<and> ''u3'' \<notin> react_user ` set (reactions example_message)
   \<and> map emoji (filter (\<lambda>r. react_user r = ''u3'')
        (reactions (Message_addReaction ''u3'' ''heart'' 2
                     (Message_addReaction ''u3'' ''thumb'' 1 example_message)))) = [''heart'']
   \<and> Message_removeReaction ''u3'' example_message = example_message"
proof -
  have d: "distinct (map react_user (reactions example_message))"
    by (simp add: example_message_def new_Message_def)
  have n: "''u3'' \<notin> react_user ` set (reactions example_message)"
    by (simp add: example_message_def new_Message_def)
  show ?thesis
    using d n C7_one_reaction_per_user [OF d, of "''u3''" "''heart''" 2 "''thumb''" 1 "[]"]
    by simp
qed

section \<open>The example identifiers\<close>

lemma example_ids:
  "is_ObjectId user_u1" "is_ObjectId user_u2" "is_ObjectId user_u3" "is_ObjectId journey_j1"
  "room_qa_j1_u2 \<noteq> []"
  by (simp_all add: is_ObjectId_def is_hex_def user_u1_def user_u2_def user_u3_def
        journey_j1_def room_qa_j1_u2_def)

section \<open>Cache keys\<close>

lemma digit_char_plain: "d < 10 \<Longrightarrow> digit_char d \<noteq> CHR '':'' \<and> digit_char d \<noteq> CHR ''*''"
proof -
  assume "d < 10"
  then have "d \<in> {0, 1, 2, 3, 4, 5, 6, 7, 8, 9}" by auto
  then show ?thesis by (auto simp: digit_char_def)
qed

lemma show_nat_chars: "c \<in> set (show_nat n) \<Longrightarrow> c \<noteq> CHR '':'' \<and> c \<noteq> CHR ''*''"
proof (induction n rule: show_nat.induct)
  case (1 n)
  show ?case
  proof (cases "n < 10")
    case True
    with "1.prems" show ?thesis by (simp add: show_nat.simps [of n] digit_char_plain)
  next
    case False
    with "1.prems" have "c \<in> set (show_nat (n div 10)) \<or> c = digit_char (n mod 10)"
      by (auto simp: show_nat.simps [of n])
    then show ?thesis using "1.IH" [OF False] digit_char_plain [of "n mod 10"] by auto
  qed
qed

lemma show_nat_nonempty: "show_nat n \<noteq> []"
  by (simp add: show_nat.simps [of n])

lemma show_int_chars: "c \<in> set (show_int i) \<Longrightarrow> c \<noteq> CHR '':'' \<and> c \<noteq> CHR ''*''"
  using show_nat_chars by (auto simp: show_int_def split: if_splits)

lemma show_int_nonempty: "show_int i \<noteq> []"
  by (simp add: show_int_def show_nat_nonempty)

lemma cacheKey_last: "last (cacheKey r p l) \<noteq> CHR ''*''"
proof -
  have "last (cacheKey r p l) = last (show_int l)"
    by (simp add: cacheKey_def show_int_nonempty)
  moreover have "last (show_int l) \<in> set (show_int l)"
    by (simp add: show_int_nonempty)
  ultimately show ?thesis using show_int_chars by metis
qed

lemma cacheKey_not_pattern: "cacheKey r p l \<noteq> history_cache_pattern room"
proof
  assume "cacheKey r p l = history_cache_pattern room"
  then have "last (cacheKey r p l) = CHR ''*''" by (simp add: history_cache_pattern_def)
  then show False using cacheKey_last by blast
qed

lemma getCache_deleteCache:
  "getCache k (snd (deleteCache k' s)) = (if k = k' then None else getCache k s)"
  by (simp add: getCache_def deleteCache_def split: option.splits)

lemma getCache_publishMessage: "getCache k (snd (publishMessage ch ev s)) = getCache k s"
  by (simp add: getCache_def publishMessage_def split: option.splits)

lemma getCache_save_doc: "save_doc m s = Inr s' \<Longrightarrow> getCache k s' = getCache k s"
  by (auto simp: save_doc_def getCache_def split: if_splits)

lemma getCache_updateMany:
  "updateMany_push_read room u ids now s = Inr (n, s') \<Longrightarrow> getCache k s' = getCache k s"
  by (auto simp: updateMany_push_read_def getCache_def split: if_splits)

section \<open>Outcomes of the mutations\<close>

lemma editMessage_cases:
  obtains (fail) e where "editMessage i u newc now s = (Inl e, s)"
  | (ok) m s1 where "findById i s = Inr (Some m)" and "sender m = u"
      and "save_doc (edited newc now m) s = Inr s1"
      and "editMessage i u newc now s =
             (Inr ''Message edited successfully'',
              snd (publishMessage (chat_channel (chatRoom m))
                     ((event_of_type ''message_edited'')
                        \<lparr>ev_messageId := Some i, ev_newContent := Some newc, ev_editedAt := Some now\<rparr>)
                     (snd (deleteCache (history_cache_pattern (chatRoom m)) s1))))"
proof (cases "findById i s")
  case (Inl e)
  then show ?thesis using fail by (simp add: editMessage_def)
next
  case (Inr found)
  show ?thesis
  proof (cases found)
    case None
    with Inr show ?thesis using fail by (simp add: editMessage_def)
  next
    case (Some m)
    show ?thesis
    proof (cases "sender m = u")
      case False
      with Inr Some show ?thesis using fail by (simp add: editMessage_def)
    next
      case True
      show ?thesis
      proof (cases "save_doc (edited newc now m) s")
        case (Inl e)
        with Inr Some True show ?thesis using fail by (simp add: editMessage_def)
      next
        case saved: (Inr s1)
        with Inr Some True show ?thesis using ok [of m s1] by (simp add: editMessage_def Let_def)
      qed
    qed
  qed
qed

lemma deleteMessage_cases:
  obtains (fail) e where "deleteMessage i u now s = (Inl e, s)"
  | (ok) m s1 where "findById i s = Inr (Some m)" and "sender m = u"
      and "save_doc (deleted now m) s = Inr s1"
      and "deleteMessage i u now s =
             (Inr ''Message deleted successfully'',
              snd (publishMessage (chat_channel (chatRoom m))
                     ((event_of_type ''message_deleted'')\<lparr>ev_messageId := Some i\<rparr>)
                     (snd (deleteCache (history_cache_pattern (chatRoom m)) s1))))"
proof (cases "findById i s")
  case (Inl e)
  then show ?thesis using fail by (simp add: deleteMessage_def)
next
  case (Inr found)
  show ?thesis
  proof (cases found)
    case None
    with Inr show ?thesis using fail by (simp add: deleteMessage_def)
  next
    case (Some m)
    show ?thesis
    proof (cases "sender m = u")
      case False
      with Inr Some show ?thesis using fail by (simp add: deleteMessage_def)
    next
      case True
      show ?thesis
      proof (cases "save_doc (deleted now m) s")
        case (Inl e)
        with Inr Some True show ?thesis using fail by (simp add: deleteMessage_def)
      next
        case saved: (Inr s1)
        with Inr Some True show ?thesis using ok [of m s1] by (simp add: deleteMessage_def Let_def)
      qed
    qed
  qed
qed

lemma addReaction_cases:
  obtains (fail) err where "addReaction i u e now s = (Inl err, s)"
  | (ok) m s1 where "findById i s = Inr (Some m)"
      and "save_doc (Message_addReaction u e now m) s = Inr s1"
      and "addReaction i u e now s =
             (Inr ''Reaction added successfully'',
              snd (publishMessage (chat_channel (chatRoom m))
                     ((event_of_type ''reaction_added'')
                        \<lparr>ev_messageId := Some i, ev_userId := Some u, ev_emoji := Some e\<rparr>)
                     (snd (deleteCache (history_cache_pattern (chatRoom m)) s1))))"
proof (cases "findById i s")
  case (Inl err)
  then show ?thesis using fail by (simp add: addReaction_def)
next
  case (Inr found)
  show ?thesis
  proof (cases found)
    case None
    with Inr show ?thesis using fail by (simp add: addReaction_def)
  next
    case (Some m)
    show ?thesis
    proof (cases "save_doc (Message_addReaction u e now m) s")
      case (Inl err)
      with Inr Some show ?thesis using fail by (simp add: addReaction_def)
    next
      case saved: (Inr s1)
      with Inr Some show ?thesis using ok [of m s1] by (simp add: addReaction_def Let_def)
    qed
  qed
qed

lemma removeReaction_cases:
  obtains (fail) err where "removeReaction i u s = (Inl err, s)"
  | (ok) m s1 where "findById i s = Inr (Some m)"
      and "save_doc (Message_removeReaction u m) s = Inr s1"
      and "removeReaction i u s =
             (Inr ''Reaction removed successfully'',
              snd (publishMessage (chat_channel (chatRoom m))
                     ((event_of_type ''reaction_removed'')
                        \<lparr>ev_messageId := Some i, ev_userId := Some u\<rparr>)
                     (snd (deleteCache (history_cache_pattern (chatRoom m)) s1))))"
proof (cases "findById i s")
  case (Inl err)
  then show ?thesis using fail by (simp add: removeReaction_def)
next
  case (Inr found)
  show ?thesis
  proof (cases found)
    case None
    with Inr show ?thesis using fail by (simp add: removeReaction_def)
  next
    case (Some m)
    show ?thesis
    proof (cases "save_doc (Message_removeReaction u m) s")
      case (Inl err)
      with Inr Some show ?thesis using fail by (simp add: removeReaction_def)
    next
      case saved: (Inr s1)
      with Inr Some show ?thesis using ok [of m s1] by (simp add: removeReaction_def Let_def)
    qed
  qed
qed

lemma markMessagesAsRead_cases:
  obtains (fail) err where "markMessagesAsRead room u a now s = (Inl err, s)"
  | (ok) ids n s1 where "a = Ids ids"
      and "updateMany_push_read room u ids now s = Inr (n, s1)"
      and "markMessagesAsRead room u a now s =
             (Inr n,
              snd (publishMessage (chat_channel room)
                     ((event_of_type ''messages_read'')
                        \<lparr>ev_userId := Some u,
                         ev_messageIds := Some (if ids \<noteq> [] then IdList ids else AllIds)\<rparr>)
                     (snd (deleteCache (history_cache_pattern room) s1))))"
proof (cases a)
  case IdsNull
  then show ?thesis using fail by (simp add: markMessagesAsRead_def)
next
  case (Ids ids)
  show ?thesis
  proof (cases "updateMany_push_read room u ids now s")
    case (Inl err)
    with Ids show ?thesis using fail by (simp add: markMessagesAsRead_def)
  next
    case (Inr res)
    obtain n s1 where "res = (n, s1)" by (cases res)
    with Ids Inr show ?thesis using ok [of ids n s1] by (simp add: markMessagesAsRead_def Let_def)
  qed
qed

section \<open>History cache and mutations\<close>

lemma editMessage_keeps_history_cache:
  "getCache (cacheKey r p l) (snd (editMessage i u newc now s)) = getCache (cacheKey r p l) s"
  by (rule editMessage_cases [of i u newc now s])
     (simp_all add: getCache_publishMessage getCache_deleteCache cacheKey_not_pattern getCache_save_doc)


lemma deleteMessage_keeps_history_cache:
  "getCache (cacheKey r p l) (snd (deleteMessage i u now s)) = getCache (cacheKey r p l) s"
  by (rule deleteMessage_cases [of i u now s])
     (simp_all add: getCache_publishMessage getCache_deleteCache cacheKey_not_pattern getCache_save_doc)

lemma addReaction_keeps_history_cache:
  "getCache (cacheKey r p l) (snd (addReaction i u e now s)) = getCache (cacheKey r p l) s"
  by (rule addReaction_cases [of i u e now s])
     (simp_all add: getCache_publishMessage getCache_deleteCache cacheKey_not_pattern getCache_save_doc)

lemma removeReaction_keeps_history_cache:
  "getCache (cacheKey r p l) (snd (removeReaction i u s)) = getCache (cacheKey r p l) s"
  by (rule removeReaction_cases [of i u s])
     (simp_all add: getCache_publishMessage getCache_deleteCache cacheKey_not_pattern getCache_save_doc)

lemma markMessagesAsRead_keeps_history_cache:
  "getCache (cacheKey r p l) (snd (markMessagesAsRead room u a now s)) = getCache (cacheKey r p l) s"
  by (rule markMessagesAsRead_cases [of room u a now s])
     (simp_all add: getCache_publishMessage getCache_deleteCache cacheKey_not_pattern getCache_updateMany)

lemma example_first_history:
  "getChatHistory room_qa_j1_u2 1 20 example_state =
     (Inr \<lparr> hist_messages = [example_message],
            hist_pagination = \<lparr> currentPage = 1, totalPages = Num 1, totalMessages = 1,
                                hasNext = False, hasPrev = False \<rparr> \<rparr>,
      example_state\<lparr>client := Some \<lparr> cache = [cacheKey room_qa_j1_u2 1 20 \<mapsto>
          (\<lparr> hist_messages = [example_message],
            hist_pagination = \<lparr> currentPage = 1, totalPages = Num 1, totalMessages = 1,
                                hasNext = False, hasPrev = False \<rparr> \<rparr>, 300)], published = [] \<rparr>\<rparr>)"
  by (simp add: getChatHistory_def getCache_def example_state_def find_page_def countDocuments_def
        history_query_def example_message_def new_Message_def example_data_def setCache_def
        ceil_div_def Let_def)

lemma getChatHistory_hit:
  "getCache (cacheKey r p l) s = Some h \<Longrightarrow> getChatHistory r p l s = (Inr h, s)"
  by (simp add: getChatHistory_def)

lemma example_delete_after_history:
  "fst (deleteMessage 0 user_u2 300 (snd (getChatHistory room_qa_j1_u2 1 20 example_state)))
     = Inr ''Message deleted successfully''
   \<and> map isDeleted (messages (snd (deleteMessage 0 user_u2 300
         (snd (getChatHistory room_qa_j1_u2 1 20 example_state))))) = [True]"
  by (simp add: example_first_history)
     (simp add: deleteMessage_def findById_def example_state_def example_message_def
        new_Message_def example_data_def save_doc_def deleted_def validate_def messageTypes_def
        deleteCache_def publishMessage_def Let_def example_ids)

text \<open>C3 (evaluation of the code). No mutation removes a cached history entry: the key
  of a cached page ends in the digits of the page size, the key handed to \<open>deleteCache\<close>
  ends in \<open>*\<close>, and \<open>deleteCache\<close> removes the key of exactly that name. In the example,
  a page is read and cached, its only message is deleted by its sender, and the next read
  of the page still returns the message as it was.\<close>

theorem C3_mutations_keep_cached_history:
  "getCache (cacheKey r p l) (snd (editMessage i u c now s)) = getCache (cacheKey r p l) s
   \<and> getCache (cacheKey r p l) (snd (deleteMessage i u now s)) = getCache (cacheKey r p l) s
   \<and> getCache (cacheKey r p l) (snd (addReaction i u e now s)) = getCache (cacheKey r p l) s
   \<and> getCache (cacheKey r p l) (snd (removeReaction i u s)) = getCache (cacheKey r p l) s
   \<and> getCache (cacheKey r p l) (snd (markMessagesAsRead room u a now s)) = getCache (cacheKey r p l) s
   \<and> fst (deleteMessage 0 user_u2 300 (snd (getChatHistory room_qa_j1_u2 1 20 example_state)))
        = Inr ''Message deleted successfully''
   \<and> map isDeleted (messages (snd (deleteMessage 0 user_u2 300
         (snd (getChatHistory room_qa_j1_u2 1 20 example_state))))) = [True]
   \<and> fst (getChatHistory room_qa_j1_u2 1 20
        (snd (deleteMessage 0 user_u2 300 (snd (getChatHistory room_qa_j1_u2 1 20 example_state)))))
        = Inr \<lparr> hist_messages = [example_message],
                hist_pagination = \<lparr> currentPage = 1, totalPages = Num 1, totalMessages = 1,
                                    hasNext = False, hasPrev = False \<rparr> \<rparr>"
proof -
  let ?h = "\<lparr> hist_messages = [example_message],
            hist_pagination = \<lparr> currentPage = 1, totalPages = Num 1, totalMessages = 1,
                                hasNext = False, hasPrev = False \<rparr> \<rparr>"
  let ?s1 = "snd (getChatHistory room_qa_j1_u2 1 20 example_state)"
  let ?s2 = "snd (deleteMessage 0 user_u2 300 ?s1)"
  have "getCache (cacheKey room_qa_j1_u2 1 20) ?s1 = Some ?h"
    by (simp add: example_first_history getCache_def)
  then have "getCache (cacheKey room_qa_j1_u2 1 20) ?s2 = Some ?h"
    by (simp add: deleteMessage_keeps_history_cache)
  then have "getChatHistory room_qa_j1_u2 1 20 ?s2 = (Inr ?h, ?s2)"
    by (rule getChatHistory_hit)
  then have stale: "fst (getChatHistory room_qa_j1_u2 1 20 ?s2) = Inr ?h"
    by simp
  show ?thesis
    using stale example_delete_after_history
    by (simp only: editMessage_keeps_history_cache deleteMessage_keeps_history_cache
          addReaction_keeps_history_cache removeReaction_keeps_history_cache
          markMessagesAsRead_keeps_history_cache simp_thms)
qed


section \<open>Editing\<close>

lemma find_replaced:
  "find (\<lambda>x. msg_id x = i) xs = Some m \<Longrightarrow> msg_id m' = i \<Longrightarrow>
   find (\<lambda>x. msg_id x = i) (map (\<lambda>x. if msg_id x = i then m' else x) xs) = Some m'"
  by (induction xs) (auto split: if_splits)

lemma findById_id: "findById i s = Inr (Some m) \<Longrightarrow> msg_id m = i"
  by (auto simp: findById_def find_Some_iff split: if_splits)

lemma findById_save_doc:
  assumes "findById i s = Inr (Some m)" and "msg_id m' = msg_id m" and "save_doc m' s = Inr s1"
  shows "findById i s1 = Inr (Some m')"
proof -
  have i: "msg_id m = i" using assms(1) by (rule findById_id)
  have up: "dbUp s" and f: "find (\<lambda>x. msg_id x = i) (messages s) = Some m"
    using assms(1) by (auto simp: findById_def split: if_splits)
  have s1: "s1 = s\<lparr>messages := map (\<lambda>x. if msg_id x = i then m' else x) (messages s)\<rparr>"
    using assms(2,3) i by (auto simp: save_doc_def split: if_splits)
  show ?thesis
    using up find_replaced [OF f, of m'] assms(2) i by (simp add: s1 findById_def)
qed

lemma findById_deleteCache: "findById i (snd (deleteCache k s)) = findById i s"
  by (simp add: findById_def deleteCache_def split: option.splits)

lemma findById_publishMessage: "findById i (snd (publishMessage ch ev s)) = findById i s"
  by (simp add: findById_def publishMessage_def split: option.splits)

lemma save_doc_valid: "save_doc m s = Inr s1 \<Longrightarrow> validate m"
  by (auto simp: save_doc_def split: if_splits)

lemma editMessage_success:
  assumes "fst (editMessage i u c now s) = Inr a"
  shows "\<exists>m. findById i s = Inr (Some m) \<and> sender m = u \<and> validate (edited c now m)
            \<and> findById i (snd (editMessage i u c now s)) = Inr (Some (edited c now m))"
proof (rule editMessage_cases [of i u c now s])
  fix e assume "editMessage i u c now s = (Inl e, s)"
  with assms show ?thesis by simp
next
  fix m s1
  assume f: "findById i s = Inr (Some m)" and o: "sender m = u"
    and sv: "save_doc (edited c now m) s = Inr s1"
    and r: "editMessage i u c now s =
             (Inr ''Message edited successfully'',
              snd (publishMessage (chat_channel (chatRoom m))
                     ((event_of_type ''message_edited'')
                        \<lparr>ev_messageId := Some i, ev_newContent := Some c, ev_editedAt := Some now\<rparr>)
                     (snd (deleteCache (history_cache_pattern (chatRoom m)) s1))))"
  have "msg_id (edited c now m) = msg_id m" by (simp add: edited_def Let_def)
  with f have "findById i s1 = Inr (Some (edited c now m))"
    using sv by (rule findById_save_doc)
  then show ?thesis
    using f o save_doc_valid [OF sv] by (simp add: r findById_publishMessage findById_deleteCache)
qed

lemma edited_fields:
  "content (edited c now m) = c" "editedAt (edited c now m) = Some now"
  "originalContent (edited c now m) =
     (if truthy (originalContent m) then originalContent m else Some (content m))"
  by (simp_all add: edited_def Let_def)


text \<open>C6. For a stored message and two successive successful edits by its sender with
  contents \<open>c1\<close> then \<open>c2\<close>: after the first edit the content is \<open>c1\<close>, after the second
  it is \<open>c2\<close>, each edit sets the edited timestamp, and \<open>originalContent\<close> holds after
  both edits what it held after the first one, which is the content before the first edit
  when the message had never been edited, and the original content already recorded
  otherwise.\<close>

theorem C6_original_content_kept:
  assumes "findById i s = Inr (Some m)" and "well_formed m"
    and "fst (editMessage i u c1 t1 s) = Inr a1"
    and "fst (editMessage i u c2 t2 (snd (editMessage i u c1 t1 s))) = Inr a2"
  shows "\<exists>m1 m2. findById i (snd (editMessage i u c1 t1 s)) = Inr (Some m1)
          \<and> findById i (snd (editMessage i u c2 t2 (snd (editMessage i u c1 t1 s)))) = Inr (Some m2)
          \<and> content m1 = c1 \<and> editedAt m1 = Some t1
          \<and> content m2 = c2 \<and> editedAt m2 = Some t2
          \<and> originalContent m1 =
              Some (case originalContent m of None \<Rightarrow> content m | Some oc \<Rightarrow> oc)
          \<and> originalContent m2 = originalContent m1"
proof -
  let ?s1 = "snd (editMessage i u c1 t1 s)"
  let ?s2 = "snd (editMessage i u c2 t2 ?s1)"
  let ?m1 = "edited c1 t1 m"
  let ?m2 = "edited c2 t2 ?m1"
  from editMessage_success [OF assms(3)] assms(1)
  have f1: "findById i ?s1 = Inr (Some ?m1)" by auto
  from editMessage_success [OF assms(4)] f1
  have f2: "findById i ?s2 = Inr (Some ?m2)" by auto
  have c0: "content m \<noteq> []" and o0: "originalContent m \<noteq> Some []"
    using assms(2) by (simp_all add: well_formed_def validate_def)
  have o1: "originalContent ?m1 = Some (case originalContent m of None \<Rightarrow> content m | Some oc \<Rightarrow> oc)"
    using o0 by (cases "originalContent m") (simp_all add: edited_fields)
  have "truthy (originalContent ?m1)"
    using c0 o0 by (cases "originalContent m") (simp_all add: o1)
  then have o2: "originalContent ?m2 = originalContent ?m1"
    by (simp add: edited_fields(3) [of c2 t2 ?m1])
  show ?thesis
    using f1 f2 o1 o2 by (intro exI [of _ ?m1] exI [of _ ?m2]) (simp add: edited_fields(1,2))
qed

theorem C6_witness:
  "findById 0 example_state = Inr (Some example_message) \<and> well_formed example_message
   \<and> fst (editMessage 0 user_u2 ''Hi'' 200 example_state) = Inr ''Message edited successfully''
   \<and> fst (editMessage 0 user_u2 ''Hey'' 300 (snd (editMessage 0 user_u2 ''Hi'' 200 example_state)))
        = Inr ''Message edited successfully''
   \<and> (\<exists>m2. findById 0 (snd (editMessage 0 user_u2 ''Hey'' 300
                 (snd (editMessage 0 user_u2 ''Hi'' 200 example_state)))) = Inr (Some m2)
          \<and> content m2 = ''Hey'' \<and> editedAt m2 = Some 300 \<and> originalContent m2 = Some ''Hello'')"
proof -
  have h1: "findById 0 example_state = Inr (Some example_message)"
    by (simp add: findById_def example_state_def example_message_def new_Message_def)
  have h2: "well_formed example_message"
    by (simp add: well_formed_def validate_def messageTypes_def example_message_def
          new_Message_def example_data_def example_ids)
  have h3: "fst (editMessage 0 user_u2 ''Hi'' 200 example_state) = Inr ''Message edited successfully''"
    by (simp add: editMessage_def findById_def example_state_def example_message_def
          new_Message_def example_data_def save_doc_def edited_def validate_def messageTypes_def
          Let_def example_ids)
  have h4: "fst (editMessage 0 user_u2 ''Hey'' 300 (snd (editMessage 0 user_u2 ''Hi'' 200 example_state)))
        = Inr ''Message edited successfully''"
    by (simp add: editMessage_def findById_def example_state_def example_message_def
          new_Message_def example_data_def save_doc_def edited_def validate_def messageTypes_def
          deleteCache_def publishMessage_def Let_def example_ids)
  have o: "originalContent example_message = None" "content example_message = ''Hello''"
    by (simp_all add: example_message_def new_Message_def example_data_def)
  show ?thesis
    using h1 h2 h3 h4 C6_original_content_kept [OF h1 h2 h3 h4] o by auto
qed

section \<open>Read receipts\<close>

lemma mark_one_settled: "\<not> read_query room u ids (mark_one room u ids now m)"
  by (auto simp: mark_one_def read_query_def)

lemma mark_one_changed: "mark_one room u ids now m \<noteq> m \<longleftrightarrow> read_query room u ids m"
proof (cases "read_query room u ids m")
  case True
  have "readBy (mark_one room u ids now m) \<noteq> readBy m"
    using True by (simp add: mark_one_def)
  then show ?thesis using True by auto
next
  case False
  then show ?thesis by (simp add: mark_one_def)
qed

lemma updateMany_result:
  "dbUp s \<Longrightarrow> updateMany_push_read room u ids now s =
     Inr (length (filter (read_query room u ids) (messages s)),
          s\<lparr>messages := map (mark_one room u ids now) (messages s)\<rparr>)"
  by (simp add: updateMany_push_read_def)

lemma messages_deleteCache: "messages (snd (deleteCache k s)) = messages s"
  by (simp add: deleteCache_def split: option.splits)

lemma messages_publishMessage: "messages (snd (publishMessage ch ev s)) = messages s"
  by (simp add: publishMessage_def split: option.splits)

lemma dbUp_deleteCache: "dbUp (snd (deleteCache k s)) = dbUp s"
  by (simp add: deleteCache_def split: option.splits)

lemma dbUp_publishMessage: "dbUp (snd (publishMessage ch ev s)) = dbUp s"
  by (simp add: publishMessage_def split: option.splits)

lemma markMessagesAsRead_result:
  assumes "dbUp s"
  shows "fst (markMessagesAsRead room u (Ids ids) now s)
           = Inr (length (filter (read_query room u ids) (messages s)))"
    and "messages (snd (markMessagesAsRead room u (Ids ids) now s))
           = map (mark_one room u ids now) (messages s)"
    and "dbUp (snd (markMessagesAsRead room u (Ids ids) now s))"
  using assms
  by (simp_all add: markMessagesAsRead_def updateMany_result Let_def messages_deleteCache
        messages_publishMessage dbUp_deleteCache dbUp_publishMessage)

lemma filter_settled: "filter (read_query room u ids) (map (mark_one room u ids now) xs) = []"
  by (induction xs) (simp_all add: mark_one_settled)

lemma map_settled:
  "map (mark_one room u ids now') (map (mark_one room u ids now) xs) = map (mark_one room u ids now) xs"
proof -
  have "mark_one room u ids now' (mark_one room u ids now m) = mark_one room u ids now m" for m
    using mark_one_settled [of room u ids now m] by (simp add: mark_one_def [of room u ids now'])
  then show ?thesis by simp
qed

lemma changed_count:
  "length (filter (\<lambda>(m, m'). m' \<noteq> m) (zip xs (map (mark_one room u ids now) xs)))
     = length (filter (read_query room u ids) xs)"
  by (induction xs) (simp_all add: mark_one_changed)

lemma mark_one_reads:
  "chatRoom m = room \<Longrightarrow> ids = [] \<or> msg_id m \<in> set ids \<Longrightarrow>
   u \<in> read_user ` set (readBy (mark_one room u ids now m))"
  by (auto simp: mark_one_def read_query_def)

lemma mark_one_room_id: "chatRoom (mark_one room u ids now m) = chatRoom m"
  "msg_id (mark_one room u ids now m) = msg_id m"
  by (simp_all add: mark_one_def)

lemma mark_one_distinct:
  "distinct (map read_user (readBy m)) \<Longrightarrow>
   distinct (map read_user (readBy (mark_one room u ids now m)))"
  by (auto simp: mark_one_def read_query_def)

lemma mark_one_first_wins:
  "take (length (readBy m)) (readBy (mark_one room u ids now m)) = readBy m"
  "u \<in> read_user ` set (readBy m) \<Longrightarrow> mark_one room u ids now m = m"
  by (auto simp: mark_one_def read_query_def)

text \<open>C8. With the store available, for every room, user and list of message ids: the
  first call of \<open>markMessagesAsRead\<close> returns the number of messages it changed; a second
  call with the same arguments returns 0 and changes no message; where no message had two
  receipts of one user before, none has after; an existing receipt list is kept as the
  beginning of the new one, and a message the user had read is left as it was; and every
  message of the room that the list names (every message of the room when the list is
  empty) has a receipt of the user afterwards.\<close>

theorem C8_mark_read_idempotent:
  assumes "dbUp s"
  shows "fst (markMessagesAsRead room u (Ids ids) t1 s)
           = Inr (length (filter (\<lambda>(m, m'). m' \<noteq> m)
                   (zip (messages s) (messages (snd (markMessagesAsRead room u (Ids ids) t1 s))))))
    \<and> fst (markMessagesAsRead room u (Ids ids) t2 (snd (markMessagesAsRead room u (Ids ids) t1 s)))
           = Inr 0
    \<and> messages (snd (markMessagesAsRead room u (Ids ids) t2
                        (snd (markMessagesAsRead room u (Ids ids) t1 s))))
           = messages (snd (markMessagesAsRead room u (Ids ids) t1 s))
    \<and> ((\<forall>m \<in> set (messages s). distinct (map read_user (readBy m))) \<longrightarrow>
         (\<forall>m' \<in> set (messages (snd (markMessagesAsRead room u (Ids ids) t1 s))).
            distinct (map read_user (readBy m'))))
    \<and> length (messages (snd (markMessagesAsRead room u (Ids ids) t1 s))) = length (messages s)
    \<and> (\<forall>k < length (messages s).
          take (length (readBy (messages s ! k)))
               (readBy (messages (snd (markMessagesAsRead room u (Ids ids) t1 s)) ! k))
            = readBy (messages s ! k)
          \<and> (u \<in> read_user ` set (readBy (messages s ! k)) \<longrightarrow>
               messages (snd (markMessagesAsRead room u (Ids ids) t1 s)) ! k = messages s ! k))
    \<and> (\<forall>m' \<in> set (messages (snd (markMessagesAsRead room u (Ids ids) t1 s))).
          chatRoom m' = room \<and> (ids = [] \<or> msg_id m' \<in> set ids) \<longrightarrow>
          u \<in> read_user ` set (readBy m'))"
proof -
  let ?s1 = "snd (markMessagesAsRead room u (Ids ids) t1 s)"
  have m1: "messages ?s1 = map (mark_one room u ids t1) (messages s)"
    and up1: "dbUp ?s1"
    and r1: "fst (markMessagesAsRead room u (Ids ids) t1 s)
               = Inr (length (filter (read_query room u ids) (messages s)))"
    using markMessagesAsRead_result [OF assms] by simp_all
  have c1: "fst (markMessagesAsRead room u (Ids ids) t1 s)
           = Inr (length (filter (\<lambda>(m, m'). m' \<noteq> m) (zip (messages s) (messages ?s1))))"
    by (simp add: r1 m1 changed_count)
  have c2: "fst (markMessagesAsRead room u (Ids ids) t2 ?s1) = Inr 0"
    by (simp only: markMessagesAsRead_result(1) [OF up1] m1 filter_settled list.size)
  have c3: "messages (snd (markMessagesAsRead room u (Ids ids) t2 ?s1)) = messages ?s1"
    by (simp only: markMessagesAsRead_result(2) [OF up1] m1 map_settled)
  have c4: "(\<forall>m \<in> set (messages s). distinct (map read_user (readBy m))) \<longrightarrow>
         (\<forall>m' \<in> set (messages ?s1). distinct (map read_user (readBy m')))"
    by (auto simp: m1 mark_one_distinct)
  have c5: "length (messages ?s1) = length (messages s)" by (simp add: m1)
  have c6: "\<forall>k < length (messages s).
          take (length (readBy (messages s ! k))) (readBy (messages ?s1 ! k)) = readBy (messages s ! k)
          \<and> (u \<in> read_user ` set (readBy (messages s ! k)) \<longrightarrow> messages ?s1 ! k = messages s ! k)"
    by (simp add: m1 mark_one_first_wins)
  have c7: "\<forall>m' \<in> set (messages ?s1).
          chatRoom m' = room \<and> (ids = [] \<or> msg_id m' \<in> set ids) \<longrightarrow>
          u \<in> read_user ` set (readBy m')"
    by (auto simp: m1 mark_one_room_id intro: mark_one_reads)
  show ?thesis using c1 c2 c3 c4 c5 c6 c7 by blast
qed

theorem C8_witness:
  "dbUp example_state2
   \<and> fst (markMessagesAsRead room_qa_j1_u2 user_u2 (Ids []) 200 example_state2) = Inr 1
   \<and> fst (markMessagesAsRead room_qa_j1_u2 user_u2 (Ids []) 300
            (snd (markMessagesAsRead room_qa_j1_u2 user_u2 (Ids []) 200 example_state2))) = Inr 0
   \<and> map readBy (messages (snd (markMessagesAsRead room_qa_j1_u2 user_u2 (Ids []) 300
            (snd (markMessagesAsRead room_qa_j1_u2 user_u2 (Ids []) 200 example_state2)))))
        = [\<lparr>read_user = user_u2, readAt = 200\<rparr>] # [\<lparr>read_user = user_u2, readAt = 160\<rparr>] # []"
proof -
  have up: "dbUp example_state2"
    by (simp add: example_state2_def example_state_def)
  have ms: "map readBy (messages (snd (markMessagesAsRead room_qa_j1_u2 user_u2 (Ids []) 200 example_state2)))
        = [\<lparr>read_user = user_u2, readAt = 200\<rparr>] # [\<lparr>read_user = user_u2, readAt = 160\<rparr>] # []"
    by (simp only: markMessagesAsRead_result(2) [OF up])
       (simp add: example_state2_def example_state_def
          example_message_def example_reply_def new_Message_def example_data_def mark_one_def
          read_query_def)
  have n: "length (filter (read_query room_qa_j1_u2 user_u2 []) (messages example_state2)) = 1"
    by (simp add: example_state2_def example_state_def
          example_message_def example_reply_def new_Message_def example_data_def read_query_def)
  show ?thesis
    using up ms n C8_mark_read_idempotent [OF up, of room_qa_j1_u2 user_u2 "[]" 200 300]
    by (simp add: markMessagesAsRead_result(1) [OF up])
qed

section \<open>Room access\<close>

lemma validateRoomAccess_qa: "validateRoomAccess u room ''qa_chat''"
  by (simp add: validateRoomAccess_def)


lemma join_room_qa_always_joins:
  "socket_id sock \<in> rooms (snd (on_join_room sock room ''qa_chat'' now srv)) room"
  by (simp add: on_join_room_def validateRoomAccess_def socket_join_def Let_def split: prod.splits sum.splits)

lemma join_room_qa_never_denied:
  "error_to sock ''Access denied to this chat room''
     \<notin> set (fst (on_join_room sock room ''qa_chat'' now srv))"
  by (simp add: on_join_room_def validateRoomAccess_def Let_def error_to_def
           split: prod.splits sum.splits)

text \<open>C1 (evaluation of the code). \<open>validateRoomAccess\<close> answers true for room type
  \<open>qa_chat\<close> whoever asks and whatever the room id: every \<open>join_room\<close> of that type puts
  the socket into the room and never emits the access-denied error. In the example,
  \<open>u3\<close>, who is neither the asker \<open>u2\<close> nor the creator of journey \<open>j1\<close>, joins room
  \<open>qa_<j1>_<u2>\<close>: the socket is put into the room, receives the history, and
  \<open>user_joined\<close> is sent to the others; no error is emitted.\<close>

theorem C1_qa_room_open_to_third_party:
  "validateRoomAccess u (''qa_'' @ j @ ''_'' @ a) ''qa_chat''
   \<and> socket_id sock \<in> rooms (snd (on_join_room sock (''qa_'' @ j @ ''_'' @ a) ''qa_chat'' now srv))
                          (''qa_'' @ j @ ''_'' @ a)
   \<and> error_to sock ''Access denied to this chat room''
        \<notin> set (fst (on_join_room sock (''qa_'' @ j @ ''_'' @ a) ''qa_chat'' now srv))
   \<and> fst (on_join_room socket_u3 room_qa_j1_u2 ''qa_chat'' 200 example_server) =
       [(ToSocket ''s3'', ''chat_history'', ChatHistoryP example_page),
        (ToRoomExcept room_qa_j1_u2 ''s3'', ''user_joined'', UserJoinedP user_u3 200)]
   \<and> ''s3'' \<in> rooms (snd (on_join_room socket_u3 room_qa_j1_u2 ''qa_chat'' 200 example_server)) room_qa_j1_u2"
proof -
  have "fst (on_join_room socket_u3 room_qa_j1_u2 ''qa_chat'' 200 example_server) =
       [(ToSocket ''s3'', ''chat_history'', ChatHistoryP example_page),
        (ToRoomExcept room_qa_j1_u2 ''s3'', ''user_joined'', UserJoinedP user_u3 200)]"
    by (simp add: on_join_room_def validateRoomAccess_def socket_join_def example_server_def
          example_first_history example_page_def socket_u3_def Let_def)
  moreover have "''s3'' \<in> rooms (snd (on_join_room socket_u3 room_qa_j1_u2 ''qa_chat'' 200 example_server)) room_qa_j1_u2"
    using join_room_qa_always_joins [of socket_u3 room_qa_j1_u2 200 example_server]
    by (simp add: socket_u3_def)
  ultimately show ?thesis
    using validateRoomAccess_qa join_room_qa_always_joins join_room_qa_never_denied by blast
qed

section \<open>Presence\<close>

text \<open>C10. The disconnect of a socket removes its user from \<open>connectedUsers\<close>,
  whichever socket the map records for that user. When one user connects with a first and
  then with a second socket, the map records the second; after the first socket
  disconnects the map has no entry for the user, and the second socket is still live.\<close>

theorem C10_disconnect_clears_presence:
  "connectedUsers (disconnect sock srv) (socket_userId sock) = None
   \<and> (socket_userId s1 = socket_userId s2 \<and> socket_id s1 \<noteq> socket_id s2 \<longrightarrow>
        connectedUsers (handleConnection s2 (handleConnection s1 srv)) (socket_userId s2)
          = Some (socket_id s2)
        \<and> connectedUsers (disconnect s1 (handleConnection s2 (handleConnection s1 srv)))
            (socket_userId s2) = None
        \<and> s2 \<in> live (disconnect s1 (handleConnection s2 (handleConnection s1 srv))))"
  by (auto simp: disconnect_def on_disconnect_def transport_close_def handleConnection_def
        socket_join_def)

theorem C10_witness:
  "socket_userId socket_u2 = socket_userId socket_u2b \<and> socket_id socket_u2 \<noteq> socket_id socket_u2b
   \<and> connectedUsers (disconnect socket_u2 (handleConnection socket_u2b (handleConnection socket_u2 example_server))) user_u2 = None
   \<and> socket_u2b \<in> live (disconnect socket_u2 (handleConnection socket_u2b (handleConnection socket_u2 example_server)))"
proof -
  have h: "socket_userId socket_u2 = socket_userId socket_u2b \<and> socket_id socket_u2 \<noteq> socket_id socket_u2b"
    by (simp add: socket_u2_def socket_u2b_def)
  have u: "socket_userId socket_u2b = user_u2" by (simp add: socket_u2b_def)
  show ?thesis
    using h u C10_disconnect_clears_presence [of socket_u2 example_server socket_u2 socket_u2b]
    by simp
qed

section \<open>Failures in the handlers\<close>

lemma mark_read_never_emits: "fst (on_mark_messages_read sock room ids now srv) = []"
  by (simp add: on_mark_messages_read_def split: prod.splits sum.splits)

lemma handlers_report_failure:
  "addReaction i (socket_userId sock) e now (svc srv) = (Inl err, c) \<Longrightarrow>
     fst (on_add_reaction sock i e now srv) = [error_to sock ''Failed to add reaction'']"
  "removeReaction i (socket_userId sock) (svc srv) = (Inl err, c) \<Longrightarrow>
     fst (on_remove_reaction sock i srv) = [error_to sock ''Failed to remove reaction'']"
  "editMessage i (socket_userId sock) newc now (svc srv) = (Inl err, c) \<Longrightarrow>
     fst (on_edit_message sock i newc now srv) = [error_to sock ''Failed to edit message'']"
  "deleteMessage i (socket_userId sock) now (svc srv) = (Inl err, c) \<Longrightarrow>
     fst (on_delete_message sock i now srv) = [error_to sock ''Failed to delete message'']"
  by (simp_all add: on_add_reaction_def on_remove_reaction_def on_edit_message_def on_delete_message_def)

text \<open>C9 (evaluation of the code). \<open>mark_messages_read\<close> with \<open>messageIds: null\<close>:
  \<open>markMessagesAsRead\<close> throws a TypeError, and the handler emits nothing, no \<open>error\<close>
  event either, and leaves the state as it was.\<close>

theorem C9_mark_read_failure_is_silent:
  "markMessagesAsRead room (socket_userId sock) IdsNull now (svc srv) = (Inl TypeError, svc srv)
   \<and> on_mark_messages_read sock room (Some IdsNull) now srv = ([], srv)
   \<and> handle_event sock (mark_messages_read room (Some IdsNull)) now srv = ([], srv)"
  by (simp add: markMessagesAsRead_def on_mark_messages_read_def)

section \<open>Relay\<close>

lemma example_reaction_published:
  "published_of (snd (addReaction 0 user_u3 ''thumb'' 300 example_state))
   = [(chat_channel room_qa_j1_u2,
       (event_of_type ''reaction_added'')
         \<lparr>ev_messageId := Some 0, ev_userId := Some user_u3, ev_emoji := Some ''thumb''\<rparr>)]"
  by (simp add: addReaction_def findById_def example_state_def example_message_def
        new_Message_def example_data_def save_doc_def Message_addReaction_def validate_def
        messageTypes_def deleteCache_def publishMessage_def published_of_def
        Let_def example_ids)

text \<open>C2 (evaluation of the code). On each of the five objects the service publishes for
  a reaction, an edit, a deletion and a read receipt, none of which has the property
  \<open>message\<close>, \<open>handleRedisMessage\<close> throws a TypeError, and the subscription callback
  emits nothing. In the example, the object published by \<open>addReaction\<close> is relayed to
  nobody.\<close>

theorem C2_relay_throws_on_published_events:
  "handleRedisMessage ((event_of_type ''reaction_added'')
       \<lparr>ev_messageId := Some i, ev_userId := Some u, ev_emoji := Some e\<rparr>) = Inl TypeError
   \<and> handleRedisMessage ((event_of_type ''reaction_removed'')
       \<lparr>ev_messageId := Some i, ev_userId := Some u\<rparr>) = Inl TypeError
   \<and> handleRedisMessage ((event_of_type ''message_edited'')
       \<lparr>ev_messageId := Some i, ev_newContent := Some newc, ev_editedAt := Some t\<rparr>) = Inl TypeError
   \<and> handleRedisMessage ((event_of_type ''message_deleted'')\<lparr>ev_messageId := Some i\<rparr>) = Inl TypeError
   \<and> handleRedisMessage ((event_of_type ''messages_read'')
       \<lparr>ev_userId := Some u, ev_messageIds := Some ids\<rparr>) = Inl TypeError
   \<and> relay_callback ((event_of_type ''reaction_added'')
       \<lparr>ev_messageId := Some i, ev_userId := Some u, ev_emoji := Some e\<rparr>) = []
   \<and> map (\<lambda>(ch, ev). (ch, handleRedisMessage ev, relay_callback ev))
         (published_of (snd (addReaction 0 user_u3 ''thumb'' 300 example_state)))
       = [(chat_channel room_qa_j1_u2, Inl TypeError, [])]"
  by (simp add: example_reaction_published)
     (simp add: handleRedisMessage_def relay_callback_def event_of_type_def)

section \<open>History pages\<close>

lemma split_at_last:
  assumes "xs @ c # ys = xs' @ c # ys'" and "c \<notin> set ys" and "c \<notin> set ys'"
  shows "xs = xs' \<and> ys = ys'"
proof -
  have "rev ys @ c # rev xs = rev ys' @ c # rev xs'"
    using arg_cong [OF assms(1), of rev] by simp
  then have "takeWhile (\<lambda>x. x \<noteq> c) (rev ys @ c # rev xs)
           = takeWhile (\<lambda>x. x \<noteq> c) (rev ys' @ c # rev xs')" by simp
  moreover have "takeWhile (\<lambda>x. x \<noteq> c) (rev ys @ c # rev xs) = rev ys"
    using assms(2) by (auto simp: takeWhile_tail)
  moreover have "takeWhile (\<lambda>x. x \<noteq> c) (rev ys' @ c # rev xs') = rev ys'"
    using assms(3) by (auto simp: takeWhile_tail)
  ultimately have "ys = ys'" by simp
  with assms(1) show ?thesis by simp
qed

lemma cacheKey_room:
  assumes "cacheKey r p l = cacheKey r' p' l'"
  shows "r = r'"
proof -
  have c: "CHR '':'' \<notin> set (show_int i)" for i
    using show_int_chars by blast
  have "(r @ '':'' @ show_int p) @ CHR '':'' # show_int l
      = (r' @ '':'' @ show_int p') @ CHR '':'' # show_int l'"
    using assms by (simp add: cacheKey_def)
  then have "r @ '':'' @ show_int p = r' @ '':'' @ show_int p'"
    using split_at_last [OF _ c c] by blast
  then have "r @ CHR '':'' # show_int p = r' @ CHR '':'' # show_int p'" by simp
  then show ?thesis using split_at_last [OF _ c c] by blast
qed

lemma getCache_setCache:
  "getCache k (snd (setCache k' v ttl s)) =
     (case client s of None \<Rightarrow> None | Some _ \<Rightarrow> if k = k' then Some v else getCache k s)"
  by (simp add: getCache_def setCache_def split: option.splits)

lemma getChatHistory_miss:
  assumes "getCache (cacheKey r p l) s = None" and "fst (getChatHistory r p l s) = Inr h"
  shows "dbUp s" and "0 \<le> (p - 1) * l"
    and "hist_messages h =
           rev (if l = 0 then drop (nat ((p - 1) * l)) (rev (sort_key createdAt (filter (history_query r) (messages s))))
                else take (nat \<bar>l\<bar>) (drop (nat ((p - 1) * l)) (rev (sort_key createdAt (filter (history_query r) (messages s))))))"
    and "snd (getChatHistory r p l s) = snd (setCache (cacheKey r p l) h 300 s)"
  using assms
  by (auto simp: getChatHistory_def find_page_def countDocuments_def Let_def
           split: if_splits)


lemma page_segment:
  fixes S :: "'a list"
  defines "pg k n \<equiv> rev (take k (drop n (rev S)))"
  shows "S = take (length S - n - k) S @ rev (take k (drop n (rev S))) @ drop (length S - n) S"
    and "length (rev (take k (drop n (rev S)))) = min k (length S - n)"
    and "S = rev (drop n (rev S)) @ drop (length S - n) S"
proof -
  have a: "rev (drop n (rev S)) = take (length S - n) S"
    by (simp add: rev_drop)
  have b: "rev (take k (drop n (rev S))) = drop (length S - n - k) (take (length S - n) S)"
    by (simp add: rev_take a)
  have "take (length S - n - k) S = take (length S - n - k) (take (length S - n) S)"
    by (simp add: min_def)
  then have "take (length S - n - k) S @ rev (take k (drop n (rev S))) = take (length S - n) S"
    by (simp only: b append_take_drop_id)
  then show "S = take (length S - n - k) S @ rev (take k (drop n (rev S))) @ drop (length S - n) S"
    by (metis append.assoc append_take_drop_id)
  show "length (rev (take k (drop n (rev S)))) = min k (length S - n)" by simp
  show "S = rev (drop n (rev S)) @ drop (length S - n) S" by (simp add: a)
qed

lemma getChatHistory_page:
  assumes "getCache (cacheKey r p l) s = None" and "fst (getChatHistory r p l s) = Inr h"
  shows "\<exists>older newer.
           sort_key createdAt (filter (history_query r) (messages s)) = older @ hist_messages h @ newer
           \<and> length newer = min (nat ((p - 1) * l)) (length (filter (history_query r) (messages s)))
           \<and> (if l = 0 then older = []
               else length (hist_messages h)
                      = min (nat \<bar>l\<bar>) (length (filter (history_query r) (messages s)) - length newer))"
proof -
  define S where "S = sort_key createdAt (filter (history_query r) (messages s))"
  define n where "n = nat ((p - 1) * l)"
  define k where "k = nat \<bar>l\<bar>"
  define newer where "newer = drop (length S - n) S"
  have len: "length (filter (history_query r) (messages s)) = length S" by (simp add: S_def)
  have nw: "length newer = min n (length S)" by (auto simp: newer_def)
  have hm: "hist_messages h = rev (if l = 0 then drop n (rev S) else take k (drop n (rev S)))"
    using getChatHistory_miss(3) [OF assms] by (simp add: S_def n_def k_def)
  show ?thesis
  proof (cases "l = 0")
    case True
    then have "S = [] @ hist_messages h @ newer"
      using page_segment(3) [of S n] by (simp add: hm newer_def)
    then have "S = [] @ hist_messages h @ newer \<and> length newer = min n (length S)
               \<and> (if l = 0 then ([] :: message list) = [] else
                    length (hist_messages h) = min k (length S - length newer))"
      using True nw by simp
    then show ?thesis
      unfolding len S_def [symmetric] n_def [symmetric] k_def [symmetric] by blast
  next
    case False
    then have hm': "hist_messages h = rev (take k (drop n (rev S)))" by (simp add: hm)
    have seg: "S = take (length S - n - k) S @ hist_messages h @ newer"
      unfolding hm' newer_def by (rule page_segment(1))
    have "length (hist_messages h) = min k (length S - n)"
      unfolding hm' by simp
    then have lp: "length (hist_messages h) = min k (length S - length newer)"
      by (simp add: nw min_def)
    have "S = take (length S - n - k) S @ hist_messages h @ newer \<and> length newer = min n (length S)
               \<and> (if l = 0 then take (length S - n - k) S = [] else
                    length (hist_messages h) = min k (length S - length newer))"
      using False nw seg lp by simp
    then show ?thesis
      unfolding len S_def [symmetric] n_def [symmetric] k_def [symmetric] by blast
  qed
qed

lemma getChatHistory_fresh_ok:
  assumes "getCache (cacheKey r p l) s = None" and "fst (getChatHistory r p l s) = Inr h"
  shows "set (hist_messages h) \<subseteq> {m \<in> set (messages s). chatRoom m = r \<and> \<not> isDeleted m}"
    and "sorted (map createdAt (hist_messages h))"
proof -
  let ?S = "sort_key createdAt (filter (history_query r) (messages s))"
  obtain older newer where seg: "?S = older @ hist_messages h @ newer"
    using getChatHistory_page [OF assms] by blast
  have "set (hist_messages h) \<subseteq> set ?S"
    by (subst seg) auto
  then show "set (hist_messages h) \<subseteq> {m \<in> set (messages s). chatRoom m = r \<and> \<not> isDeleted m}"
    by (auto simp: history_query_def)
  have "sorted (map createdAt ?S)" by (rule sorted_sort_key)
  then have "sorted (map createdAt older @ map createdAt (hist_messages h) @ map createdAt newer)"
    by (subst (asm) seg) simp
  then show "sorted (map createdAt (hist_messages h))"
    by (simp add: sorted_append)
qed

lemma getChatHistory_cache_ok:
  assumes "cache_ok s" and "fst (getChatHistory r p l s) = Inr h"
  shows "history_ok r h" and "cache_ok (snd (getChatHistory r p l s))"
proof -
  show h: "history_ok r h"
  proof (cases "getCache (cacheKey r p l) s")
    case None
    then show ?thesis
      using getChatHistory_fresh_ok [OF None assms(2)] by (auto simp: history_ok_def)
  next
    case (Some c)
    then have "c = h" using assms(2) by (simp add: getChatHistory_hit)
    with Some assms(1) show ?thesis by (auto simp: cache_ok_def)
  qed
  show "cache_ok (snd (getChatHistory r p l s))"
  proof (cases "getCache (cacheKey r p l) s")
    case (Some c)
    then show ?thesis using assms(1) by (simp add: getChatHistory_hit)
  next
    case None
    have st: "snd (getChatHistory r p l s) = snd (setCache (cacheKey r p l) h 300 s)"
      by (rule getChatHistory_miss(4) [OF None assms(2)])
    show ?thesis
      unfolding cache_ok_def st
    proof (intro allI impI)
      fix r' p' l' h'
      assume g: "getCache (cacheKey r' p' l') (snd (setCache (cacheKey r p l) h 300 s)) = Some h'"
      show "history_ok r' h'"
      proof (cases "cacheKey r' p' l' = cacheKey r p l")
        case True
        then have "r' = r" by (rule cacheKey_room)
        moreover have "h' = h"
          using g True by (simp add: getCache_setCache split: option.splits)
        ultimately show ?thesis using h by simp
      next
        case False
        then have "getCache (cacheKey r' p' l') s = Some h'"
          using g by (simp add: getCache_setCache split: option.splits)
        with assms(1) show ?thesis by (auto simp: cache_ok_def)
      qed
    qed
  qed
qed

lemma getChatHistory_returns:
  assumes "dbUp s" and "1 \<le> p" and "0 \<le> l"
  shows "\<exists>h. fst (getChatHistory r p l s) = Inr h"
proof -
  have "0 \<le> (p - 1) * l" using assms(2,3) by simp
  then show ?thesis
    using assms(1)
    by (simp add: getChatHistory_def find_page_def countDocuments_def Let_def split: option.splits)
qed

lemma getChatHistory_stores:
  assumes "getCache (cacheKey r p l) s = None" and "fst (getChatHistory r p l s) = Inr h"
    and "client s = Some c"
  shows "client (snd (getChatHistory r p l s)) = Some (c\<lparr>cache := (cache c)(cacheKey r p l \<mapsto> (h, 300))\<rparr>)"
  using assms(3) by (simp add: getChatHistory_miss(4) [OF assms(1,2)] setCache_def)

lemma getChatHistory_no_client:
  assumes "client s = None"
  shows "snd (getChatHistory r p l s) = s"
  using assms
  by (simp add: getChatHistory_def getCache_def setCache_def Let_def split: sum.splits)

lemma getCache_insert_doc: "insert_doc m s = Inr s1 \<Longrightarrow> getCache k s1 = getCache k s"
  by (auto simp: insert_doc_def getCache_def split: if_splits)

lemma getCache_saveMessage: "getCache k (snd (saveMessage d now s)) = getCache k s"
  by (cases "insert_doc (new_Message d (nextId s) now) s")
     (simp_all add: saveMessage_def Let_def getCache_publishMessage getCache_insert_doc)

lemma cache_ok_preserved:
  "cache_ok (snd (saveMessage d now s)) = cache_ok s"
  "cache_ok (snd (editMessage i u c now s)) = cache_ok s"
  "cache_ok (snd (deleteMessage i u now s)) = cache_ok s"
  "cache_ok (snd (addReaction i u e now s)) = cache_ok s"
  "cache_ok (snd (removeReaction i u s)) = cache_ok s"
  "cache_ok (snd (markMessagesAsRead room u a now s)) = cache_ok s"
  by (simp_all add: cache_ok_def getCache_saveMessage editMessage_keeps_history_cache
        deleteMessage_keeps_history_cache addReaction_keeps_history_cache
        removeReaction_keeps_history_cache markMessagesAsRead_keeps_history_cache)

lemma cache_ok_empty: "client s = Some \<lparr>cache = Map.empty, published = ps\<rparr> \<Longrightarrow> cache_ok s"
  by (simp add: cache_ok_def getCache_def)

text \<open>C5. \<open>getChatHistory\<close> for a room, page and page size. On a cache hit it returns
  the cached page and changes nothing. On a miss that succeeds, the page holds only stored
  messages of the room that are not deleted, oldest first; it is the part of the room's
  undeleted messages, sorted by creation time, that is left after cutting the
  \<open>(page - 1) * limit\<close> newest and then keeping the \<open>limit\<close> newest of the rest (all of
  the rest for limit 0); and with a Redis client the page is stored under the key of
  (room, page, limit) with an expiry of 300 seconds. Where every cached page is a page of
  its room without deleted messages, oldest first, every returned page is, hit or miss,
  and the cache stays so. With the store available, a page of at least 1 and a limit of at
  least 0, the call returns a page.\<close>

theorem C5_history_pages:
  "(getCache (cacheKey r p l) s = Some c \<longrightarrow> getChatHistory r p l s = (Inr c, s))
   \<and> (getCache (cacheKey r p l) s = None \<and> fst (getChatHistory r p l s) = Inr h \<longrightarrow>
        set (hist_messages h) \<subseteq> {m \<in> set (messages s). chatRoom m = r \<and> \<not> isDeleted m}
        \<and> sorted (map createdAt (hist_messages h))
        \<and> (\<exists>older newer.
              sort_key createdAt (filter (history_query r) (messages s))
                = older @ hist_messages h @ newer
              \<and> length newer
                  = min (nat ((p - 1) * l)) (length (filter (history_query r) (messages s)))
              \<and> (if l = 0 then older = []
                  else length (hist_messages h)
                         = min (nat \<bar>l\<bar>)
                             (length (filter (history_query r) (messages s)) - length newer)))
        \<and> (\<forall>rc. client s = Some rc \<longrightarrow>
              client (snd (getChatHistory r p l s))
                = Some (rc\<lparr>cache := (cache rc)(cacheKey r p l \<mapsto> (h, 300))\<rparr>)))
   \<and> (cache_ok s \<and> fst (getChatHistory r p l s) = Inr h \<longrightarrow>
        (\<forall>m \<in> set (hist_messages h). chatRoom m = r \<and> \<not> isDeleted m)
        \<and> sorted (map createdAt (hist_messages h))
        \<and> cache_ok (snd (getChatHistory r p l s)))
   \<and> (dbUp s \<and> 1 \<le> p \<and> 0 \<le> l \<longrightarrow> (\<exists>h'. fst (getChatHistory r p l s) = Inr h'))"
proof (intro conjI impI)
  assume "getCache (cacheKey r p l) s = Some c"
  then show "getChatHistory r p l s = (Inr c, s)" by (rule getChatHistory_hit)
next
  assume a: "getCache (cacheKey r p l) s = None \<and> fst (getChatHistory r p l s) = Inr h"
  then have n: "getCache (cacheKey r p l) s = None" and f: "fst (getChatHistory r p l s) = Inr h"
    by simp_all
  show "set (hist_messages h) \<subseteq> {m \<in> set (messages s). chatRoom m = r \<and> \<not> isDeleted m}"
    by (rule getChatHistory_fresh_ok(1) [OF n f])
  show "sorted (map createdAt (hist_messages h))"
    by (rule getChatHistory_fresh_ok(2) [OF n f])
  show "\<exists>older newer.
              sort_key createdAt (filter (history_query r) (messages s))
                = older @ hist_messages h @ newer
              \<and> length newer
                  = min (nat ((p - 1) * l)) (length (filter (history_query r) (messages s)))
              \<and> (if l = 0 then older = []
                  else length (hist_messages h)
                         = min (nat \<bar>l\<bar>)
                             (length (filter (history_query r) (messages s)) - length newer))"
    by (rule getChatHistory_page [OF n f])
  show "\<forall>rc. client s = Some rc \<longrightarrow>
              client (snd (getChatHistory r p l s))
                = Some (rc\<lparr>cache := (cache rc)(cacheKey r p l \<mapsto> (h, 300))\<rparr>)"
    using getChatHistory_stores [OF n f] by blast
next
  assume a: "cache_ok s \<and> fst (getChatHistory r p l s) = Inr h"
  then have ok: "history_ok r h" and inv: "cache_ok (snd (getChatHistory r p l s))"
    using getChatHistory_cache_ok [of s r p l h] by simp_all
  show "\<forall>m \<in> set (hist_messages h). chatRoom m = r \<and> \<not> isDeleted m"
    using ok by (simp add: history_ok_def)
  show "sorted (map createdAt (hist_messages h))"
    using ok by (simp add: history_ok_def)
  show "cache_ok (snd (getChatHistory r p l s))" by (rule inv)
next
  assume "dbUp s \<and> 1 \<le> p \<and> 0 \<le> l"
  then show "\<exists>h'. fst (getChatHistory r p l s) = Inr h'"
    using getChatHistory_returns [of s p l r] by simp
qed

theorem C5_witness:
  "getCache (cacheKey room_qa_j1_u2 1 20) example_state = None
   \<and> fst (getChatHistory room_qa_j1_u2 1 20 example_state) = Inr example_page
   \<and> cache_ok example_state \<and> dbUp example_state
   \<and> getCache (cacheKey room_qa_j1_u2 1 20) (snd (getChatHistory room_qa_j1_u2 1 20 example_state))
       = Some example_page
   \<and> getChatHistory room_qa_j1_u2 1 20 (snd (getChatHistory room_qa_j1_u2 1 20 example_state))
       = (Inr example_page, snd (getChatHistory room_qa_j1_u2 1 20 example_state))
   \<and> sorted (map createdAt (hist_messages example_page))
   \<and> cache_ok (snd (getChatHistory room_qa_j1_u2 1 20 example_state))"
proof -
  let ?s1 = "snd (getChatHistory room_qa_j1_u2 1 20 example_state)"
  have n: "getCache (cacheKey room_qa_j1_u2 1 20) example_state = None"
    by (simp add: getCache_def example_state_def)
  have f: "fst (getChatHistory room_qa_j1_u2 1 20 example_state) = Inr example_page"
    by (simp add: example_first_history example_page_def)
  have ok: "cache_ok example_state"
    by (rule cache_ok_empty [of _ "[]"]) (simp add: example_state_def)
  have up: "dbUp example_state" by (simp add: example_state_def)
  have hit: "getCache (cacheKey room_qa_j1_u2 1 20) ?s1 = Some example_page"
    by (simp add: example_first_history getCache_def example_page_def)
  show ?thesis
    using n f ok up hit
      C5_history_pages [of room_qa_j1_u2 1 20 example_state example_page example_page]
      C5_history_pages [of room_qa_j1_u2 1 20 ?s1 example_page example_page]
    by simp
qed

section \<open>Sending a message\<close>

lemma trim_length: "length (trim s) \<le> length s"
proof -
  have "length (dropWhile is_ws (rev (dropWhile is_ws s))) \<le> length (rev (dropWhile is_ws s))"
    by (rule length_dropWhile_le)
  also have "\<dots> \<le> length s" by (simp add: length_dropWhile_le)
  finally show ?thesis by (simp add: trim_def)
qed

lemma saveMessage_ok:
  assumes "validate (new_Message d (nextId s) now)" and "dbUp s"
    and "case md_location d of None \<Rightarrow> True | Some l \<Rightarrow> geoIndex s l"
  shows "fst (saveMessage d now s) = Inr (new_Message d (nextId s) now)"
    and "messages (snd (saveMessage d now s)) = messages s @ [new_Message d (nextId s) now]"
    and "published_of (snd (saveMessage d now s)) =
           (case client s of None \<Rightarrow> []
            | Some r \<Rightarrow> published r @ [(chat_channel (md_chatRoom d),
                (event_of_type ''new_message'')\<lparr>ev_message := Some (new_Message d (nextId s) now)\<rparr>)])"
proof -
  have "insert_doc (new_Message d (nextId s) now) s
          = Inr (s\<lparr>messages := messages s @ [new_Message d (nextId s) now],
                   nextId := Suc (nextId s)\<rparr>)"
    using assms by (simp add: insert_doc_def new_Message_def split: option.splits)
  then show "fst (saveMessage d now s) = Inr (new_Message d (nextId s) now)"
    and "messages (snd (saveMessage d now s)) = messages s @ [new_Message d (nextId s) now]"
    and "published_of (snd (saveMessage d now s)) =
           (case client s of None \<Rightarrow> []
            | Some r \<Rightarrow> published r @ [(chat_channel (md_chatRoom d),
                (event_of_type ''new_message'')\<lparr>ev_message := Some (new_Message d (nextId s) now)\<rparr>)])"
    by (simp_all add: saveMessage_def Let_def messages_publishMessage
          published_of_def publishMessage_def split: option.splits)
qed

lemma saveMessage_invalid:
  "\<not> validate (new_Message d (nextId s) now) \<Longrightarrow> saveMessage d now s = (Inl ValidationError, s)"
  by (simp add: saveMessage_def insert_doc_def Let_def)

lemma saveMessage_fail: "fst (saveMessage d now s) = Inl e \<Longrightarrow> snd (saveMessage d now s) = s"
  by (cases "insert_doc (new_Message d (nextId s) now) s") (simp_all add: saveMessage_def Let_def)

lemma on_send_message_empty:
  "sd_content d = [] \<or> trim (sd_content d) = [] \<Longrightarrow>
   on_send_message sock d now srv = ([error_to sock ''Message content is required''], srv)"
  by (auto simp: on_send_message_def)

lemma on_send_message_long:
  "sd_content d \<noteq> [] \<Longrightarrow> trim (sd_content d) \<noteq> [] \<Longrightarrow> length (sd_content d) > 1000 \<Longrightarrow>
   on_send_message sock d now srv = ([error_to sock ''Message too long (max 1000 characters)''], srv)"
  by (simp add: on_send_message_def)

lemma on_send_message_valid:
  assumes "\<not> (sd_content d = [] \<or> trim (sd_content d) = [] \<or> length (sd_content d) > 1000)"
  shows "on_send_message sock d now srv =
     (case saveMessage (send_messageData sock d) now (svc srv) of
        (Inl e, c) \<Rightarrow> ([error_to sock ''Failed to send message''], srv\<lparr>svc := c\<rparr>)
      | (Inr savedMessage, c) \<Rightarrow>
          ([(ToRoom (sd_roomId d), ''new_message'', NewMessageP savedMessage)], srv\<lparr>svc := c\<rparr>))"
  using assms by (simp add: on_send_message_def)

lemma on_send_message_rejected:
  assumes "\<not> (sd_content d = [] \<or> trim (sd_content d) = [] \<or> length (sd_content d) > 1000)"
    and "\<not> validate (new_Message (send_messageData sock d) (nextId (svc srv)) now)"
  shows "on_send_message sock d now srv = ([error_to sock ''Failed to send message''], srv)"
  using assms(1) by (simp add: on_send_message_valid saveMessage_invalid [OF assms(2)])

lemma send_validate:
  assumes "\<not> (sd_content d = [] \<or> trim (sd_content d) = [] \<or> length (sd_content d) > 1000)"
    and "is_ObjectId (socket_userId sock)" and "sd_roomId d \<noteq> []"
    and "case sd_messageType d of None \<Rightarrow> True | Some t \<Rightarrow> t \<in> set messageTypes"
    and "case sd_attachments d of None \<Rightarrow> True
           | Some as \<Rightarrow> \<forall>a \<in> set as. att_type a \<in> set attachmentTypes"
    and "case sd_parentMessageId d of None \<Rightarrow> True | Some p \<Rightarrow> p = [] \<or> is_ObjectId p"
    and "determineChatType (sd_roomId d) = group_planning \<longrightarrow>
           is_ObjectId (extractJourneyId (sd_roomId d))"
    and "determineChatType (sd_roomId d) = location_chat \<longrightarrow>
           parseFloat_is_number (latitude_src (extractLocationData (sd_roomId d)))
           \<and> parseFloat_is_number (longitude_src (extractLocationData (sd_roomId d)))"
  shows "validate (new_Message (send_messageData sock d) i now)"
proof -
  have len: "length (trim (sd_content d)) \<le> 1000"
    using assms(1) trim_length [of "sd_content d"] by simp
  have c: "trim (sd_content d) \<noteq> []" using assms(1) by simp
  have mt: "(case sd_messageType d of None \<Rightarrow> ''text'' | Some t \<Rightarrow> t) \<in> set messageTypes"
    using assms(4) by (simp add: messageTypes_def split: option.splits)
  have at: "\<forall>a \<in> set (case sd_attachments d of None \<Rightarrow> [] | Some a \<Rightarrow> a).
              att_type a \<in> set attachmentTypes"
    using assms(5) by (simp split: option.splits)
  have pm: "case (case sd_parentMessageId d of None \<Rightarrow> None
                  | Some p \<Rightarrow> if p = [] then None else Some p) of
              None \<Rightarrow> True | Some p \<Rightarrow> is_ObjectId p"
    using assms(6) by (auto split: option.splits)
  show ?thesis
    unfolding validate_def new_Message_def send_messageData_def
    using len c mt at pm assms(2,3,7,8) by simp
qed

text \<open>C4. A \<open>send_message\<close> whose content is empty or consists of white space only is
  answered by the gateway's own check with the one event \<open>error\<close>, text
  \<open>Message content is required\<close>; one whose content is longer than 1000 characters with
  the one event \<open>error\<close>, text \<open>Message too long (max 1000 characters)\<close>. Either goes to
  the sending socket alone and leaves the whole server state as it was: nothing is stored
  and nothing is published, and the text is not the one of a failed save
  (\<open>Failed to send message\<close>). A request whose content passes these checks and which
  passes the schema's casts and validators (the sender an ObjectId, a room, a known message
  type, known attachment types, a parent message that is absent, empty or an ObjectId, for
  a planning room a journey ObjectId in the room id, for a location room two coordinates
  that parse as numbers), with the store available and, for a location room, its
  geospatial index taking the location, is stored with the trimmed content,
  and the only emission is \<open>new_message\<close> with the stored message to the room: to every
  socket in the room, the sender's included when it is in the room.\<close>

theorem C4_send_message_validation:
  "(sd_content d = [] \<or> trim (sd_content d) = [] \<longrightarrow>
      on_send_message sock d now srv = ([error_to sock ''Message content is required''], srv))
   \<and> (sd_content d \<noteq> [] \<and> trim (sd_content d) \<noteq> [] \<and> length (sd_content d) > 1000 \<longrightarrow>
      on_send_message sock d now srv
        = ([error_to sock ''Message too long (max 1000 characters)''], srv))
   \<and> recipients srv (fst (error_to sock msg)) = {socket_id sock}
   \<and> (\<not> (sd_content d = [] \<or> trim (sd_content d) = [] \<or> length (sd_content d) > 1000)
       \<and> dbUp (svc srv) \<and> is_ObjectId (socket_userId sock) \<and> sd_roomId d \<noteq> []
       \<and> (case sd_messageType d of None \<Rightarrow> True | Some t \<Rightarrow> t \<in> set messageTypes)
       \<and> (case sd_attachments d of None \<Rightarrow> True
           | Some as \<Rightarrow> \<forall>a \<in> set as. att_type a \<in> set attachmentTypes)
       \<and> (case sd_parentMessageId d of None \<Rightarrow> True | Some p \<Rightarrow> p = [] \<or> is_ObjectId p)
       \<and> (determineChatType (sd_roomId d) = group_planning \<longrightarrow>
             is_ObjectId (extractJourneyId (sd_roomId d)))
       \<and> (determineChatType (sd_roomId d) = location_chat \<longrightarrow>
             parseFloat_is_number (latitude_src (extractLocationData (sd_roomId d)))
             \<and> parseFloat_is_number (longitude_src (extractLocationData (sd_roomId d)))
             \<and> geoIndex (svc srv) (extractLocationData (sd_roomId d))) \<longrightarrow>
      (\<exists>saved. fst (on_send_message sock d now srv)
                  = [(ToRoom (sd_roomId d), ''new_message'', NewMessageP saved)]
         \<and> messages (svc (snd (on_send_message sock d now srv))) = messages (svc srv) @ [saved]
         \<and> sender saved = socket_userId sock \<and> content saved = trim (sd_content d)
         \<and> chatRoom saved = sd_roomId d \<and> chatType saved = determineChatType (sd_roomId d)
         \<and> recipients (snd (on_send_message sock d now srv)) (ToRoom (sd_roomId d))
             = rooms srv (sd_roomId d)
         \<and> (socket_id sock \<in> rooms srv (sd_roomId d) \<longrightarrow>
              socket_id sock
                \<in> recipients (snd (on_send_message sock d now srv)) (ToRoom (sd_roomId d)))))"
proof (intro conjI impI)
  assume "sd_content d = [] \<or> trim (sd_content d) = []"
  then show "on_send_message sock d now srv = ([error_to sock ''Message content is required''], srv)"
    by (rule on_send_message_empty)
next
  assume "sd_content d \<noteq> [] \<and> trim (sd_content d) \<noteq> [] \<and> length (sd_content d) > 1000"
  then show "on_send_message sock d now srv
        = ([error_to sock ''Message too long (max 1000 characters)''], srv)"
    by (simp add: on_send_message_long)
next
  show "recipients srv (fst (error_to sock msg)) = {socket_id sock}"
    by (simp add: recipients_def error_to_def)
next
  assume a: "\<not> (sd_content d = [] \<or> trim (sd_content d) = [] \<or> length (sd_content d) > 1000)
       \<and> dbUp (svc srv) \<and> is_ObjectId (socket_userId sock) \<and> sd_roomId d \<noteq> []
       \<and> (case sd_messageType d of None \<Rightarrow> True | Some t \<Rightarrow> t \<in> set messageTypes)
       \<and> (case sd_attachments d of None \<Rightarrow> True
           | Some as \<Rightarrow> \<forall>a \<in> set as. att_type a \<in> set attachmentTypes)
       \<and> (case sd_parentMessageId d of None \<Rightarrow> True | Some p \<Rightarrow> p = [] \<or> is_ObjectId p)
       \<and> (determineChatType (sd_roomId d) = group_planning \<longrightarrow>
             is_ObjectId (extractJourneyId (sd_roomId d)))
       \<and> (determineChatType (sd_roomId d) = location_chat \<longrightarrow>
             parseFloat_is_number (latitude_src (extractLocationData (sd_roomId d)))
             \<and> parseFloat_is_number (longitude_src (extractLocationData (sd_roomId d)))
             \<and> geoIndex (svc srv) (extractLocationData (sd_roomId d)))"
  let ?saved = "new_Message (send_messageData sock d) (nextId (svc srv)) now"
  have ok: "\<not> (sd_content d = [] \<or> trim (sd_content d) = [] \<or> length (sd_content d) > 1000)"
    using a by blast
  have v: "validate ?saved"
    using a by (intro send_validate) blast+
  have up: "dbUp (svc srv)" using a by simp
  have g: "case md_location (send_messageData sock d) of
             None \<Rightarrow> True | Some l \<Rightarrow> geoIndex (svc srv) l"
    using a by (simp add: send_messageData_def)
  have r: "on_send_message sock d now srv =
             ([(ToRoom (sd_roomId d), ''new_message'', NewMessageP ?saved)],
              srv\<lparr>svc := snd (saveMessage (send_messageData sock d) now (svc srv))\<rparr>)"
  proof -
    obtain x c where sm: "saveMessage (send_messageData sock d) now (svc srv) = (x, c)"
      by (cases "saveMessage (send_messageData sock d) now (svc srv)")
    then have "x = Inr ?saved" using saveMessage_ok(1) [OF v up g] by simp
    with sm ok show ?thesis by (simp add: on_send_message_valid)
  qed
  show "\<exists>saved. fst (on_send_message sock d now srv)
                  = [(ToRoom (sd_roomId d), ''new_message'', NewMessageP saved)]
         \<and> messages (svc (snd (on_send_message sock d now srv))) = messages (svc srv) @ [saved]
         \<and> sender saved = socket_userId sock \<and> content saved = trim (sd_content d)
         \<and> chatRoom saved = sd_roomId d \<and> chatType saved = determineChatType (sd_roomId d)
         \<and> recipients (snd (on_send_message sock d now srv)) (ToRoom (sd_roomId d))
             = rooms srv (sd_roomId d)
         \<and> (socket_id sock \<in> rooms srv (sd_roomId d) \<longrightarrow>
              socket_id sock
                \<in> recipients (snd (on_send_message sock d now srv)) (ToRoom (sd_roomId d)))"
  proof (rule exI [of _ ?saved], intro conjI impI)
    show "fst (on_send_message sock d now srv)
            = [(ToRoom (sd_roomId d), ''new_message'', NewMessageP ?saved)]"
      by (simp add: r)
    show "messages (svc (snd (on_send_message sock d now srv))) = messages (svc srv) @ [?saved]"
      by (simp add: r saveMessage_ok(2) [OF v up g])
    show "sender ?saved = socket_userId sock" "content ?saved = trim (sd_content d)"
      "chatRoom ?saved = sd_roomId d" "chatType ?saved = determineChatType (sd_roomId d)"
      by (simp_all add: new_Message_def send_messageData_def)
    show "recipients (snd (on_send_message sock d now srv)) (ToRoom (sd_roomId d))
            = rooms srv (sd_roomId d)"
      by (simp add: r recipients_def)
    then show "socket_id sock \<in> recipients (snd (on_send_message sock d now srv)) (ToRoom (sd_roomId d))"
      if "socket_id sock \<in> rooms srv (sd_roomId d)"
      using that by simp
  qed
qed

section \<open>Sending a message: the examples\<close>

text \<open>A short text is accepted in the question room, in the planning room of journey
  \<open>j1\<close> and in the location room of 12.5, -45.0. In room \<open>journey_j1\<close>, whose id gives
  the journey \<open>j1\<close>, which is no ObjectId, and in room \<open>location_abc\<close>, whose id gives no
  coordinates, the save fails and the sender gets \<open>Failed to send message\<close>.\<close>

lemma example_rooms:
  "determineChatType room_qa_j1_u2 = qa_chat"
  "determineChatType room_journey_j1 = group_planning"
  "extractJourneyId room_journey_j1 = journey_j1"
  "determineChatType room_location = location_chat"
  "extractLocationData room_location
     = \<lparr>latitude_src = Some ''12.5'', longitude_src = Some ''-45.0''\<rparr>"
  "determineChatType ''journey_j1'' = group_planning"
  "extractJourneyId ''journey_j1'' = ''j1''"
  "determineChatType ''location_abc'' = location_chat"
  "extractLocationData ''location_abc'' = \<lparr>latitude_src = Some ''abc'', longitude_src = None\<rparr>"
  "room_journey_j1 \<noteq> []" "room_location \<noteq> []"
  by (simp_all add: determineChatType_def startsWith_def room_qa_j1_u2_def journey_j1_def
        room_journey_j1_def room_location_def
        extractJourneyId_def extractLocationData_def nth_opt_def Let_def)

lemma example_numbers:
  "parseFloat_is_number (Some ''12.5'')" "parseFloat_is_number (Some ''-45.0'')"
  "\<not> parseFloat_is_number (Some ''abc'')" "\<not> parseFloat_is_number None"
  by (simp_all add: parseFloat_is_number_def is_ws_def is_digit_def startsWith_def Let_def)

lemma example_trim:
  "trim (sd_content example_short) = ''Thanks!''" "trim (sd_content example_blank) = []"
  "length (sd_content example_short) = 9" "sd_content example_short \<noteq> []"
  by (simp_all add: example_short_def example_blank_def trim_def is_ws_def)

lemma send_message_rejected_examples:
  "on_send_message socket_u2 example_bad_journey 300 example_room_server
     = ([error_to socket_u2 ''Failed to send message''], example_room_server)"
  "on_send_message socket_u2 example_bad_location 300 example_room_server
     = ([error_to socket_u2 ''Failed to send message''], example_room_server)"
proof -
  have t: "\<not> (sd_content example_bad_journey = [] \<or> trim (sd_content example_bad_journey) = []
              \<or> length (sd_content example_bad_journey) > 1000)"
    "\<not> (sd_content example_bad_location = [] \<or> trim (sd_content example_bad_location) = []
              \<or> length (sd_content example_bad_location) > 1000)"
    using example_trim by (simp_all add: example_bad_journey_def example_bad_location_def)
  have "\<not> is_ObjectId ''j1''" by (simp add: is_ObjectId_def)
  then have "\<not> validate (new_Message (send_messageData socket_u2 example_bad_journey)
                          (nextId (svc example_room_server)) 300)"
    by (simp add: validate_def new_Message_def send_messageData_def example_bad_journey_def
          example_rooms)
  then show "on_send_message socket_u2 example_bad_journey 300 example_room_server
     = ([error_to socket_u2 ''Failed to send message''], example_room_server)"
    using t(1) by (rule on_send_message_rejected [rotated])
  have "\<not> validate (new_Message (send_messageData socket_u2 example_bad_location)
                          (nextId (svc example_room_server)) 300)"
    by (simp add: validate_def new_Message_def send_messageData_def example_bad_location_def
          example_rooms example_numbers)
  then show "on_send_message socket_u2 example_bad_location 300 example_room_server
     = ([error_to socket_u2 ''Failed to send message''], example_room_server)"
    using t(2) by (rule on_send_message_rejected [rotated])
qed


lemma example_send_fields:
  "sd_roomId example_short = room_qa_j1_u2" "sd_roomId example_planning = room_journey_j1"
  "sd_roomId example_location = room_location"
  "sd_content example_planning = sd_content example_short"
  "sd_content example_location = sd_content example_short"
  "sd_messageType example_short = None" "sd_attachments example_short = None"
  "sd_parentMessageId example_short = None"
  "sd_messageType example_planning = None" "sd_attachments example_planning = None"
  "sd_parentMessageId example_planning = None"
  "sd_messageType example_location = None" "sd_attachments example_location = None"
  "sd_parentMessageId example_location = None"
  "socket_userId socket_u2 = user_u2" "socket_id socket_u2 = ''s2''"
  "dbUp (svc example_room_server)" "rooms example_room_server room_qa_j1_u2 = {''s2'', ''s1''}"
  "geoIndex (svc example_room_server) l"
  by (simp_all add: example_short_def example_planning_def example_location_def socket_u2_def
        example_room_server_def example_state_def)

lemma example_send_accepted:
  assumes "d = example_short \<or> d = example_planning \<or> d = example_location"
  shows "\<not> (sd_content d = [] \<or> trim (sd_content d) = [] \<or> length (sd_content d) > 1000)
       \<and> dbUp (svc example_room_server) \<and> is_ObjectId (socket_userId socket_u2) \<and> sd_roomId d \<noteq> []
       \<and> (case sd_messageType d of None \<Rightarrow> True | Some t \<Rightarrow> t \<in> set messageTypes)
       \<and> (case sd_attachments d of None \<Rightarrow> True
           | Some as \<Rightarrow> \<forall>a \<in> set as. att_type a \<in> set attachmentTypes)
       \<and> (case sd_parentMessageId d of None \<Rightarrow> True | Some p \<Rightarrow> p = [] \<or> is_ObjectId p)
       \<and> (determineChatType (sd_roomId d) = group_planning \<longrightarrow>
             is_ObjectId (extractJourneyId (sd_roomId d)))
       \<and> (determineChatType (sd_roomId d) = location_chat \<longrightarrow>
             parseFloat_is_number (latitude_src (extractLocationData (sd_roomId d)))
             \<and> parseFloat_is_number (longitude_src (extractLocationData (sd_roomId d)))
             \<and> geoIndex (svc example_room_server) (extractLocationData (sd_roomId d)))"
  using assms
  by (elim disjE)
     (simp_all add: example_send_fields example_ids example_rooms example_trim example_numbers)


theorem C4_witness:
  "trim (sd_content example_blank) = []
   \<and> on_send_message socket_u2 example_blank 300 example_room_server
       = ([error_to socket_u2 ''Message content is required''], example_room_server)
   \<and> length (sd_content example_long) > 1000
   \<and> on_send_message socket_u2 example_long 300 example_room_server
       = ([error_to socket_u2 ''Message too long (max 1000 characters)''], example_room_server)
   \<and> (\<exists>saved. fst (on_send_message socket_u2 example_short 300 example_room_server)
                  = [(ToRoom room_qa_j1_u2, ''new_message'', NewMessageP saved)]
         \<and> content saved = ''Thanks!'')
   \<and> recipients (snd (on_send_message socket_u2 example_short 300 example_room_server))
        (ToRoom room_qa_j1_u2) = {''s2'', ''s1''}
   \<and> determineChatType (sd_roomId example_planning) = group_planning
   \<and> is_ObjectId (extractJourneyId (sd_roomId example_planning))
   \<and> (\<exists>saved. fst (on_send_message socket_u2 example_planning 300 example_room_server)
                  = [(ToRoom room_journey_j1, ''new_message'', NewMessageP saved)]
         \<and> chatType saved = group_planning)
   \<and> determineChatType (sd_roomId example_location) = location_chat
   \<and> (\<exists>saved. fst (on_send_message socket_u2 example_location 300 example_room_server)
                  = [(ToRoom room_location, ''new_message'', NewMessageP saved)]
         \<and> chatType saved = location_chat)"
proof -
  have b: "trim (sd_content example_blank) = []" by (rule example_trim(2))
  have l: "sd_content example_long \<noteq> [] \<and> trim (sd_content example_long) \<noteq> []
           \<and> length (sd_content example_long) > 1000"
    by (simp add: example_long_def trim_def is_ws_def)
  have eb: "on_send_message socket_u2 example_blank 300 example_room_server
       = ([error_to socket_u2 ''Message content is required''], example_room_server)"
    using b C4_send_message_validation [of example_blank socket_u2 300 example_room_server]
    by blast
  have el: "on_send_message socket_u2 example_long 300 example_room_server
       = ([error_to socket_u2 ''Message too long (max 1000 characters)''], example_room_server)"
    using l C4_send_message_validation [of example_long socket_u2 300 example_room_server]
    by blast
  have s: "\<exists>saved. fst (on_send_message socket_u2 example_short 300 example_room_server)
                  = [(ToRoom (sd_roomId example_short), ''new_message'', NewMessageP saved)]
         \<and> content saved = trim (sd_content example_short)
         \<and> recipients (snd (on_send_message socket_u2 example_short 300 example_room_server))
              (ToRoom (sd_roomId example_short)) = rooms example_room_server (sd_roomId example_short)"
    using example_send_accepted [of example_short]
      C4_send_message_validation [of example_short socket_u2 300 example_room_server]
    by blast
  have p: "\<exists>saved. fst (on_send_message socket_u2 example_planning 300 example_room_server)
                  = [(ToRoom (sd_roomId example_planning), ''new_message'', NewMessageP saved)]
         \<and> chatType saved = determineChatType (sd_roomId example_planning)"
    using example_send_accepted [of example_planning]
      C4_send_message_validation [of example_planning socket_u2 300 example_room_server]
    by blast
  have c: "\<exists>saved. fst (on_send_message socket_u2 example_location 300 example_room_server)
                  = [(ToRoom (sd_roomId example_location), ''new_message'', NewMessageP saved)]
         \<and> chatType saved = determineChatType (sd_roomId example_location)"
    using example_send_accepted [of example_location]
      C4_send_message_validation [of example_location socket_u2 300 example_room_server]
    by blast
  show ?thesis
    using b eb l el s p c
    by (simp add: example_send_fields example_rooms example_trim example_ids) blast
qed

section \<open>The store invariant is kept\<close>

text \<open>Every operation of the service keeps \<open>store_ok\<close>, and the empty collection has it:
  the messages the properties above speak of are well formed.\<close>

lemma findById_member: "findById i s = Inr (Some m) \<Longrightarrow> m \<in> set (messages s)"
  by (auto simp: findById_def find_Some_iff split: if_splits)

lemma store_ok_save_doc:
  assumes "store_ok s" and "save_doc m s = Inr s1" and "originalContent m \<noteq> Some []"
  shows "store_ok s1"
proof -
  have "validate m" using assms(2) by (rule save_doc_valid)
  moreover have "messages s1 = map (\<lambda>x. if msg_id x = msg_id m then m else x) (messages s)"
    using assms(2) by (auto simp: save_doc_def split: if_splits)
  ultimately show ?thesis using assms(1,3) by (auto simp: store_ok_def well_formed_def)
qed

lemma store_ok_deleteCache: "store_ok (snd (deleteCache k s)) = store_ok s"
  by (simp add: store_ok_def messages_deleteCache)

lemma store_ok_publishMessage: "store_ok (snd (publishMessage ch ev s)) = store_ok s"
  by (simp add: store_ok_def messages_publishMessage)

lemma edited_original:
  "well_formed m \<Longrightarrow> originalContent (edited c now m) \<noteq> Some []"
  by (cases "originalContent m") (auto simp: edited_fields well_formed_def validate_def)

lemma store_ok_saveMessage: "store_ok s \<Longrightarrow> store_ok (snd (saveMessage d now s))"
proof (cases "insert_doc (new_Message d (nextId s) now) s")
  case (Inl e)
  assume "store_ok s"
  with Inl show ?thesis by (simp add: saveMessage_def Let_def)
next
  case (Inr s1)
  assume ok: "store_ok s"
  have "validate (new_Message d (nextId s) now)"
    and "messages s1 = messages s @ [new_Message d (nextId s) now]"
    using Inr by (auto simp: insert_doc_def split: if_splits)
  moreover have "originalContent (new_Message d (nextId s) now) = None"
    by (simp add: new_Message_def)
  ultimately have "store_ok s1" using ok by (auto simp: store_ok_def well_formed_def)
  with Inr show ?thesis by (simp add: saveMessage_def Let_def store_ok_publishMessage)
qed

lemma store_ok_editMessage: "store_ok s \<Longrightarrow> store_ok (snd (editMessage i u c now s))"
proof (rule editMessage_cases [of i u c now s])
  fix e assume "store_ok s" and "editMessage i u c now s = (Inl e, s)"
  then show ?thesis by simp
next
  fix m s1
  assume ok: "store_ok s" and f: "findById i s = Inr (Some m)"
    and sv: "save_doc (edited c now m) s = Inr s1"
    and r: "editMessage i u c now s =
             (Inr ''Message edited successfully'',
              snd (publishMessage (chat_channel (chatRoom m))
                     ((event_of_type ''message_edited'')
                        \<lparr>ev_messageId := Some i, ev_newContent := Some c, ev_editedAt := Some now\<rparr>)
                     (snd (deleteCache (history_cache_pattern (chatRoom m)) s1))))"
  have "well_formed m" using ok findById_member [OF f] by (simp add: store_ok_def)
  then have "store_ok s1" using store_ok_save_doc [OF ok sv] edited_original by blast
  then show ?thesis by (simp add: r store_ok_publishMessage store_ok_deleteCache)
qed

lemma store_ok_deleteMessage: "store_ok s \<Longrightarrow> store_ok (snd (deleteMessage i u now s))"
proof (rule deleteMessage_cases [of i u now s])
  fix e assume "store_ok s" and "deleteMessage i u now s = (Inl e, s)"
  then show ?thesis by simp
next
  fix m s1
  assume ok: "store_ok s" and f: "findById i s = Inr (Some m)"
    and sv: "save_doc (deleted now m) s = Inr s1"
    and r: "deleteMessage i u now s =
             (Inr ''Message deleted successfully'',
              snd (publishMessage (chat_channel (chatRoom m))
                     ((event_of_type ''message_deleted'')\<lparr>ev_messageId := Some i\<rparr>)
                     (snd (deleteCache (history_cache_pattern (chatRoom m)) s1))))"
  have "well_formed m" using ok findById_member [OF f] by (simp add: store_ok_def)
  then have "originalContent (deleted now m) \<noteq> Some []"
    by (simp add: deleted_def well_formed_def)
  then have "store_ok s1" by (rule store_ok_save_doc [OF ok sv])
  then show ?thesis by (simp add: r store_ok_publishMessage store_ok_deleteCache)
qed

lemma store_ok_addReaction: "store_ok s \<Longrightarrow> store_ok (snd (addReaction i u e now s))"
proof (rule addReaction_cases [of i u e now s])
  fix err assume "store_ok s" and "addReaction i u e now s = (Inl err, s)"
  then show ?thesis by simp
next
  fix m s1
  assume ok: "store_ok s" and f: "findById i s = Inr (Some m)"
    and sv: "save_doc (Message_addReaction u e now m) s = Inr s1"
    and r: "addReaction i u e now s =
             (Inr ''Reaction added successfully'',
              snd (publishMessage (chat_channel (chatRoom m))
                     ((event_of_type ''reaction_added'')
                        \<lparr>ev_messageId := Some i, ev_userId := Some u, ev_emoji := Some e\<rparr>)
                     (snd (deleteCache (history_cache_pattern (chatRoom m)) s1))))"
  have "well_formed m" using ok findById_member [OF f] by (simp add: store_ok_def)
  then have "originalContent (Message_addReaction u e now m) \<noteq> Some []"
    by (simp add: Message_addReaction_def well_formed_def split: option.splits)
  then have "store_ok s1" by (rule store_ok_save_doc [OF ok sv])
  then show ?thesis by (simp add: r store_ok_publishMessage store_ok_deleteCache)
qed

lemma store_ok_removeReaction: "store_ok s \<Longrightarrow> store_ok (snd (removeReaction i u s))"
proof (rule removeReaction_cases [of i u s])
  fix err assume "store_ok s" and "removeReaction i u s = (Inl err, s)"
  then show ?thesis by simp
next
  fix m s1
  assume ok: "store_ok s" and f: "findById i s = Inr (Some m)"
    and sv: "save_doc (Message_removeReaction u m) s = Inr s1"
    and r: "removeReaction i u s =
             (Inr ''Reaction removed successfully'',
              snd (publishMessage (chat_channel (chatRoom m))
                     ((event_of_type ''reaction_removed'')
                        \<lparr>ev_messageId := Some i, ev_userId := Some u\<rparr>)
                     (snd (deleteCache (history_cache_pattern (chatRoom m)) s1))))"
  have "well_formed m" using ok findById_member [OF f] by (simp add: store_ok_def)
  then have "originalContent (Message_removeReaction u m) \<noteq> Some []"
    by (simp add: Message_removeReaction_def well_formed_def)
  then have "store_ok s1" by (rule store_ok_save_doc [OF ok sv])
  then show ?thesis by (simp add: r store_ok_publishMessage store_ok_deleteCache)
qed

lemma well_formed_mark_one: "well_formed m \<Longrightarrow> well_formed (mark_one room u ids now m)"
  by (simp add: mark_one_def well_formed_def validate_def)

lemma store_ok_markMessagesAsRead:
  "store_ok s \<Longrightarrow> store_ok (snd (markMessagesAsRead room u a now s))"
proof (rule markMessagesAsRead_cases [of room u a now s])
  fix err assume "store_ok s" and "markMessagesAsRead room u a now s = (Inl err, s)"
  then show ?thesis by simp
next
  fix ids n s1
  assume ok: "store_ok s" and um: "updateMany_push_read room u ids now s = Inr (n, s1)"
    and r: "markMessagesAsRead room u a now s =
             (Inr n,
              snd (publishMessage (chat_channel room)
                     ((event_of_type ''messages_read'')
                        \<lparr>ev_userId := Some u,
                         ev_messageIds := Some (if ids \<noteq> [] then IdList ids else AllIds)\<rparr>)
                     (snd (deleteCache (history_cache_pattern room) s1))))"
  have "messages s1 = map (mark_one room u ids now) (messages s)"
    using um by (auto simp: updateMany_push_read_def split: if_splits)
  then have "store_ok s1" using ok by (auto simp: store_ok_def well_formed_mark_one)
  then show ?thesis by (simp add: r store_ok_publishMessage store_ok_deleteCache)
qed

lemma store_ok_getChatHistory: "store_ok (snd (getChatHistory r p l s)) = store_ok s"
proof -
  have "messages (snd (getChatHistory r p l s)) = messages s"
    by (simp add: getChatHistory_def setCache_def Let_def split: option.splits sum.splits)
  then show ?thesis by (simp add: store_ok_def)
qed

lemma store_ok_initial:
  "store_ok \<lparr>messages = [], nextId = n, dbUp = b, client = c, geoIndex = g\<rparr>"
  by (simp add: store_ok_def)

section \<open>Failures of the store in the other handlers\<close>

lemma gateway_reports_failure:
  "fst (getChatHistory room 1 20 (svc (socket_join sock room srv))) = Inl err \<Longrightarrow>
     fst (on_join_room sock room ''qa_chat'' now srv) = [error_to sock ''Failed to join chat room'']"
  "\<not> (sd_content d = [] \<or> trim (sd_content d) = [] \<or> length (sd_content d) > 1000) \<Longrightarrow>
   fst (saveMessage (send_messageData sock d) now (svc srv)) = Inl err \<Longrightarrow>
     fst (on_send_message sock d now srv) = [error_to sock ''Failed to send message'']"
  by (auto simp: on_join_room_def validateRoomAccess_def Let_def on_send_message_def
           split: prod.splits sum.splits)

end
